theory Spec2Isabelle
  imports Main "HOL-Library.Sublist" "HOL-Library.List_Lexorder" "HOL-Library.Char_ord"
begin

section \<open>JavaScript runtime: dates\<close>

text \<open>
  A JavaScript \<^verbatim>\<open>Date\<close> holds a time value: a number of milliseconds, or NaN (an
  invalid date). The calendar arithmetic below is ECMAScript's (\<^verbatim>\<open>MakeDay\<close>,
  \<^verbatim>\<open>MakeTime\<close>, \<^verbatim>\<open>MakeDate\<close>, \<^verbatim>\<open>TimeClip\<close>, \<^verbatim>\<open>DateFromTime\<close>, ...) on the proleptic
  Gregorian calendar, with days counted from 1970-01-01. Months are 0-based, as in
  JavaScript.
\<close>

datatype jsdate = InvalidDate | Date int

definition msPerDay :: int where
  "msPerDay = 86400000"

text \<open>Day number of the first day of month \<open>m\<close> (0-based, in \<open>0..11\<close>) of year \<open>y\<close>, plus \<open>d - 1\<close>.\<close>

definition days_from_civil :: "int \<Rightarrow> int \<Rightarrow> int \<Rightarrow> int" where
  "days_from_civil y m d =
     (let y' = (if m \<le> 1 then y - 1 else y);
          era = y' div 400;
          yoe = y' - era * 400;
          mp = (m + 10) mod 12;
          doy = (153 * mp + 2) div 5 + d - 1;
          doe = yoe * 365 + yoe div 4 - yoe div 100 + doy
      in era * 146097 + doe - 719468)"

text \<open>The inverse: (year, month 0-based, day of month) of a day number.\<close>

definition civil_from_days :: "int \<Rightarrow> int \<times> int \<times> int" where
  "civil_from_days z =
     (let z' = z + 719468;
          era = z' div 146097;
          doe = z' - era * 146097;
          yoe = (doe - doe div 1460 + doe div 36524 - doe div 146096) div 365;
          doy = doe - (365 * yoe + yoe div 4 - yoe div 100);
          mp = (5 * doy + 2) div 153;
          d = doy - (153 * mp + 2) div 5 + 1;
          m = (if mp < 10 then mp + 2 else mp - 10);
          y = yoe + era * 400
      in (if m \<le> 1 then y + 1 else y, m, d))"

definition Day :: "int \<Rightarrow> int" where
  "Day t = t div msPerDay"

definition TimeWithinDay :: "int \<Rightarrow> int" where
  "TimeWithinDay t = t mod msPerDay"

definition YearFromTime :: "int \<Rightarrow> int" where
  "YearFromTime t = fst (civil_from_days (Day t))"

definition MonthFromTime :: "int \<Rightarrow> int" where
  "MonthFromTime t = fst (snd (civil_from_days (Day t)))"

definition DateFromTime :: "int \<Rightarrow> int" where
  "DateFromTime t = snd (snd (civil_from_days (Day t)))"

text \<open>\<^verbatim>\<open>MakeDay\<close> normalises a month outside \<open>0..11\<close> into the year, and lets the day of the
  month run over the month's end.\<close>

definition MakeDay :: "int \<Rightarrow> int \<Rightarrow> int \<Rightarrow> int" where
  "MakeDay year month date = days_from_civil (year + month div 12) (month mod 12) 1 + date - 1"

definition MakeTime :: "int \<Rightarrow> int \<Rightarrow> int \<Rightarrow> int \<Rightarrow> int" where
  "MakeTime hour minute sec ms = hour * 3600000 + minute * 60000 + sec * 1000 + ms"

definition MakeDate :: "int \<Rightarrow> int \<Rightarrow> int" where
  "MakeDate day time = day * msPerDay + time"

definition TimeClip :: "int \<Rightarrow> jsdate" where
  "TimeClip t = (if \<bar>t\<bar> > 8640000000000000 then InvalidDate else Date t)"

text \<open>A two-digit year (0 to 99) given to the \<^verbatim>\<open>Date\<close> constructor or to \<^verbatim>\<open>Date.UTC\<close>
  means 1900 + year.\<close>

definition MakeFullYear :: "int \<Rightarrow> int" where
  "MakeFullYear y = (if 0 \<le> y \<and> y \<le> 99 then 1900 + y else y)"

section \<open>Gym shifts: the pay period\<close>

text \<open>
  Both gym-shift scripts (the standalone one and the GitHub Actions one) hold the same
  \<^verbatim>\<open>ANCHOR_DATE\<close>, \<^verbatim>\<open>PERIOD_LENGTH_DAYS\<close>, \<^verbatim>\<open>getPayPeriod\<close> and \<^verbatim>\<open>formatDate\<close>, word for word.
  All their dates are local ones (\<^verbatim>\<open>new Date('2025-11-29T00:00:00')\<close>,
  \<^verbatim>\<open>new Date(y, m, d)\<close>, \<^verbatim>\<open>getDate\<close>, \<^verbatim>\<open>setDate\<close>), so a date is modelled by its local time
  value, in a zone whose offset from UTC is constant over the dates involved (the
  scheduled workflow runs in UTC): there \<^verbatim>\<open>getTime\<close> differences are differences of local
  time values.
\<close>

definition ANCHOR_DATE :: int where
  "ANCHOR_DATE = MakeDate (MakeDay 2025 10 29) (MakeTime 0 0 0 0)"

definition PERIOD_LENGTH_DAYS :: int where
  "PERIOD_LENGTH_DAYS = 14"

definition getDate :: "int \<Rightarrow> int" where
  "getDate t = DateFromTime t"

text \<open>\<^verbatim>\<open>setDate\<close> keeps year, month and time of day and lets \<^verbatim>\<open>MakeDay\<close> carry a day number
  beyond the month's end into the next months. (Its \<^verbatim>\<open>TimeClip\<close> is left out: the clock of
  a run is far inside the range of time values.)\<close>

definition setDate :: "int \<Rightarrow> int \<Rightarrow> int" where
  "setDate t dt = MakeDate (MakeDay (YearFromTime t) (MonthFromTime t) dt) (TimeWithinDay t)"

record payPeriod =
  periodStart :: int
  periodEnd :: int

definition getPayPeriod :: "int \<Rightarrow> payPeriod" where
  "getPayPeriod date =
     (let timeDiff = date - ANCHOR_DATE;
          daysDiff = timeDiff div (1000 * 60 * 60 * 24);
          periodIndex = daysDiff div PERIOD_LENGTH_DAYS;
          pStart = setDate ANCHOR_DATE (getDate ANCHOR_DATE + periodIndex * PERIOD_LENGTH_DAYS);
          pEnd = setDate pStart (getDate pStart + PERIOD_LENGTH_DAYS - 1)
      in \<lparr>periodStart = pStart, periodEnd = pEnd\<rparr>)"

subsection \<open>Numbers as text\<close>

text \<open>\<^verbatim>\<open>String(n)\<close> for an integer \<open>n\<close>, and \<^verbatim>\<open>padStart(2, '0')\<close>.\<close>

fun String_nat :: "nat \<Rightarrow> string" where
  "String_nat n =
     (if n < 10 then [''0123456789'' ! n]
      else String_nat (n div 10) @ [''0123456789'' ! (n mod 10)])"

declare String_nat.simps [simp del]

definition String_int :: "int \<Rightarrow> string" where
  "String_int i = (if i < 0 then ''-'' @ String_nat (nat (- i)) else String_nat (nat i))"

definition padStart2 :: "string \<Rightarrow> string" where
  "padStart2 s = replicate (2 - length s) (CHR ''0'') @ s"

definition formatDate :: "int \<Rightarrow> string" where
  "formatDate date =
     (let month = padStart2 (String_int (MonthFromTime date + 1));
          day = padStart2 (String_int (getDate date));
          year = String_int (YearFromTime date)
      in month @ ''/'' @ day @ ''/'' @ year)"

text \<open>Local midnight of a calendar day (month 1-based here, as a date is written).\<close>

definition localMidnight :: "int \<Rightarrow> int \<Rightarrow> int \<Rightarrow> int" where
  "localMidnight y m d = MakeDate (MakeDay y (m - 1) d) 0"

section \<open>JavaScript runtime: strings and numbers\<close>

text \<open>
  Text is a list of bytes (UTF-8). Every pattern the scripts search for is ASCII, and an
  ASCII byte never occurs inside a multi-byte UTF-8 sequence, so searching, splitting and
  character classes behave on the bytes as they do on a JavaScript string's code units.
  Only the white space of ASCII is treated as white space.
\<close>

text \<open>\<^verbatim>\<open>s.split(sep)\<close> for a non-empty separator.\<close>

function splitFrom :: "string \<Rightarrow> string \<Rightarrow> string \<Rightarrow> string list" where
  "splitFrom sep acc s =
     (if s = [] then [acc]
      else if sep \<noteq> [] \<and> prefix sep s then acc # splitFrom sep [] (drop (length sep) s)
      else splitFrom sep (acc @ [hd s]) (tl s))"
  by pat_completeness auto
termination
  by (relation "measure (\<lambda>(sep, acc, s). length s)") (auto simp: prefix_def)

declare splitFrom.simps [simp del]

definition split_str :: "string \<Rightarrow> string \<Rightarrow> string list" where
  "split_str s sep = splitFrom sep [] s"

definition isWhiteSpace :: "char \<Rightarrow> bool" where
  "isWhiteSpace c = (c \<in> set [CHR 0x09, CHR 0x0A, CHR 0x0B, CHR 0x0C, CHR 0x0D, CHR '' ''])"

definition trim :: "string \<Rightarrow> string" where
  "trim s = rev (dropWhile isWhiteSpace (rev (dropWhile isWhiteSpace s)))"

text \<open>The value of a digit in a radix (10 or 16), if it is one.\<close>

definition digitValue :: "nat \<Rightarrow> char \<Rightarrow> nat option" where
  "digitValue radix c =
     (let n = of_char c :: nat;
          v = (if 48 \<le> n \<and> n \<le> 57 then Some (n - 48)
               else if 97 \<le> n \<and> n \<le> 102 then Some (n - 87)
               else if 65 \<le> n \<and> n \<le> 70 then Some (n - 55)
               else None)
      in case v of None \<Rightarrow> None | Some d \<Rightarrow> if d < radix then Some d else None)"

text \<open>
  \<^verbatim>\<open>parseInt(s)\<close> with no radix: leading white space and a sign are skipped, a prefix
  \<^verbatim>\<open>0x\<close> selects radix 16, the longest run of digits is read, and no digit at all gives
  NaN (\<open>None\<close>). The result is the exact integer (a JavaScript number is exact up to
  \<open>2^53\<close>, far beyond any date that \<^verbatim>\<open>TimeClip\<close> accepts).
\<close>

definition parseInt :: "string \<Rightarrow> int option" where
  "parseInt s =
     (let s1 = dropWhile isWhiteSpace s;
          neg = (s1 \<noteq> [] \<and> hd s1 = CHR ''-'');
          s2 = (if s1 \<noteq> [] \<and> (hd s1 = CHR ''-'' \<or> hd s1 = CHR ''+'') then tl s1 else s1);
          hex = (prefix ''0x'' s2 \<or> prefix ''0X'' s2);
          radix = (if hex then 16 else 10);
          s3 = (if hex then drop 2 s2 else s2);
          ds = takeWhile (\<lambda>c. digitValue radix c \<noteq> None) s3;
          v = foldl (\<lambda>a c. a * int radix + int (the (digitValue radix c))) 0 ds
      in if ds = [] then None else Some (if neg then - v else v))"

text \<open>\<^verbatim>\<open>new Date(year, monthIndex, day)\<close>: NaN in any argument gives an invalid date.\<close>

definition new_Date_ymd :: "int option \<Rightarrow> int option \<Rightarrow> int option \<Rightarrow> jsdate" where
  "new_Date_ymd y m d =
     (case (y, m, d) of
        (Some y', Some m', Some d') \<Rightarrow>
          TimeClip (MakeDate (MakeDay (MakeFullYear y') m' d') (MakeTime 0 0 0 0))
      | _ \<Rightarrow> InvalidDate)"

text \<open>Comparing a date with a time value: false when the date is invalid (NaN).\<close>

definition date_ge :: "jsdate \<Rightarrow> int \<Rightarrow> bool" where
  "date_ge a b = (case a of InvalidDate \<Rightarrow> False | Date t \<Rightarrow> t \<ge> b)"

definition date_le :: "jsdate \<Rightarrow> int \<Rightarrow> bool" where
  "date_le a b = (case a of InvalidDate \<Rightarrow> False | Date t \<Rightarrow> t \<le> b)"

definition date_lt :: "jsdate \<Rightarrow> int \<Rightarrow> bool" where
  "date_lt a b = (case a of InvalidDate \<Rightarrow> False | Date t \<Rightarrow> t < b)"

text \<open>A value in a template literal: \<^verbatim>\<open>undefined\<close> prints as that word.\<close>

definition tpl :: "string option \<Rightarrow> string" where
  "tpl v = (case v of None \<Rightarrow> ''undefined'' | Some s \<Rightarrow> s)"

text \<open>
  The hours of a shift are JavaScript numbers (floating point). Their arithmetic is a
  parameter: the number that \<^verbatim>\<open>parseFloat\<close> reads from a text, whether a number is truthy
  (neither NaN nor zero), zero, addition, the test \<^verbatim>\<open>=== 1\<close> and the number's text.
\<close>

record 'n numberOps =
  parseFloat :: "string \<Rightarrow> 'n"
  truthy :: "'n \<Rightarrow> bool"
  zero :: 'n
  add :: "'n \<Rightarrow> 'n \<Rightarrow> 'n"
  isOne :: "'n \<Rightarrow> bool"
  numberToString :: "'n \<Rightarrow> string"

section \<open>Gym shifts: the aggregation\<close>

text \<open>A row of the sheet, as \<^verbatim>\<open>parseCSV\<close> returns it: a value for each header.\<close>

type_synonym row = "string \<Rightarrow> string option"

record 'n shiftState =
  totalHours :: 'n
  shiftLines :: "string list"
  seenShifts :: "string list"

definition initialState :: "'n numberOps \<Rightarrow> 'n shiftState" where
  "initialState ops = \<lparr>totalHours = zero ops, shiftLines = [], seenShifts = []\<rparr>"

text \<open>The first two checks of the loop body: the rows that \<^verbatim>\<open>continue\<close> skips at once.\<close>

definition skipRow :: "row \<Rightarrow> bool" where
  "skipRow row =
     (case row ''Date'' of
        None \<Rightarrow> True
      | Some date \<Rightarrow>
          date = [] \<or> date = ''Date'' \<or> date = ''MM/DD/YYYY''
          \<or> length (split_str date ''/'') \<noteq> 3)"

definition rowDate :: "row \<Rightarrow> jsdate" where
  "rowDate row =
     (let dateParts = split_str (the (row ''Date'')) ''/''
      in new_Date_ymd (parseInt (dateParts ! 2))
           (map_option (\<lambda>m. m - 1) (parseInt (dateParts ! 0)))
           (parseInt (dateParts ! 1)))"

definition inPeriod :: "payPeriod \<Rightarrow> row \<Rightarrow> bool" where
  "inPeriod currentPeriod row =
     (date_ge (rowDate row) (periodStart currentPeriod)
      \<and> date_le (rowDate row) (periodEnd currentPeriod))"

definition rowHours :: "'n numberOps \<Rightarrow> row \<Rightarrow> 'n" where
  "rowHours ops row =
     (let h = parseFloat ops (tpl (row ''Hours'')) in if truthy ops h then h else zero ops)"

text \<open>The dash of the display line is U+2014, here in UTF-8.\<close>

definition emDash :: string where
  "emDash = [CHR 0xE2, CHR 0x80, CHR 0x94]"

definition shiftLine :: "'n numberOps \<Rightarrow> row \<Rightarrow> string" where
  "shiftLine ops row =
     (let hours = rowHours ops row;
          hourText = (if isOne ops hours then ''hour'' else ''hours'')
      in tpl (row ''Date'') @ '' '' @ emDash @ '' '' @ numberToString ops hours @ '' '' @ hourText
         @ '' ('' @ tpl (row ''Start Time'') @ '' - '' @ tpl (row ''End Time'') @ '')'')"

text \<open>The body of \<^verbatim>\<open>if (rowDate >= periodStart && rowDate <= periodEnd)\<close>.\<close>

definition addShift :: "'n numberOps \<Rightarrow> row \<Rightarrow> 'n shiftState \<Rightarrow> 'n shiftState" where
  "addShift ops row st =
     st\<lparr>totalHours := add ops (totalHours st) (rowHours ops row),
        shiftLines := shiftLines st @ [shiftLine ops row]\<rparr>"

definition shiftKey :: "row \<Rightarrow> string" where
  "shiftKey row = tpl (row ''Date'') @ ''|'' @ tpl (row ''Start Time'') @ ''|'' @ tpl (row ''End Time'')"

text \<open>One pass of the loop of the standalone script, which tracks duplicates in
  \<^verbatim>\<open>seenShifts\<close>.\<close>

definition rowStep :: "'n numberOps \<Rightarrow> payPeriod \<Rightarrow> 'n shiftState \<Rightarrow> row \<Rightarrow> 'n shiftState" where
  "rowStep ops currentPeriod st row =
     (if skipRow row then st
      else if shiftKey row \<in> set (seenShifts st) then st
      else let st' = st\<lparr>seenShifts := seenShifts st @ [shiftKey row]\<rparr>
           in if inPeriod currentPeriod row then addShift ops row st' else st')"

definition processRows :: "'n numberOps \<Rightarrow> payPeriod \<Rightarrow> row list \<Rightarrow> 'n shiftState \<Rightarrow> 'n shiftState" where
  "processRows ops currentPeriod rows st = foldl (rowStep ops currentPeriod) st rows"

text \<open>One pass of the loop of the GitHub Actions script, which has no \<^verbatim>\<open>seenShifts\<close>
  (the field stays empty).\<close>

definition rowStep_gh :: "'n numberOps \<Rightarrow> payPeriod \<Rightarrow> 'n shiftState \<Rightarrow> row \<Rightarrow> 'n shiftState" where
  "rowStep_gh ops currentPeriod st row =
     (if skipRow row then st
      else if inPeriod currentPeriod row then addShift ops row st else st)"

definition processRows_gh :: "'n numberOps \<Rightarrow> payPeriod \<Rightarrow> row list \<Rightarrow> 'n shiftState \<Rightarrow> 'n shiftState" where
  "processRows_gh ops currentPeriod rows st = foldl (rowStep_gh ops currentPeriod) st rows"

text \<open>
  What \<^verbatim>\<open>main\<close> computes from the clock and the fetched rows before it writes the mail:
  the period of \<^verbatim>\<open>now\<close>, the loop from the empty state, and the lines sorted as
  \<^verbatim>\<open>shiftLines.sort()\<close> sorts them (as text). (The GitHub Actions script first exits with
  code 1 when a mail credential is missing from its environment; \<open>main_shifts_gh\<close> is its
  run with both present.)
\<close>

definition main_shifts :: "'n numberOps \<Rightarrow> int \<Rightarrow> row list \<Rightarrow> 'n shiftState" where
  "main_shifts ops now rows =
     (let currentPeriod = getPayPeriod now;
          st = processRows ops currentPeriod rows (initialState ops)
      in st\<lparr>shiftLines := sort (shiftLines st)\<rparr>)"

definition main_shifts_gh :: "'n numberOps \<Rightarrow> int \<Rightarrow> row list \<Rightarrow> 'n shiftState" where
  "main_shifts_gh ops now rows =
     (let currentPeriod = getPayPeriod now;
          st = processRows_gh ops currentPeriod rows (initialState ops)
      in st\<lparr>shiftLines := sort (shiftLines st)\<rparr>)"

section \<open>Event alerts: reading the feed\<close>

text \<open>\<^verbatim>\<open>s.replace(/pat/g, rep)\<close> for a pattern that is a fixed, non-empty text.\<close>

function replaceAll :: "string \<Rightarrow> string \<Rightarrow> string \<Rightarrow> string" where
  "replaceAll pat rep s =
     (if s = [] then []
      else if pat \<noteq> [] \<and> prefix pat s then rep @ replaceAll pat rep (drop (length pat) s)
      else hd s # replaceAll pat rep (tl s))"
  by pat_completeness auto
termination
  by (relation "measure (\<lambda>(pat, rep, s). length s)") (auto simp: prefix_def)

declare replaceAll.simps [simp del]

definition backslash :: char where
  "backslash = CHR 0x5C"

definition notLineBreak :: "char \<Rightarrow> bool" where
  "notLineBreak c = (c \<noteq> CHR 0x0D \<and> c \<noteq> CHR 0x0A)"

text \<open>
  The field patterns of \<^verbatim>\<open>fetchEvents\<close>. \<open>matchHere key params s\<close> matches at the start of
  \<open>s\<close> the pattern \<^verbatim>\<open>KEY:([^\r\n]+)\<close> (\<open>params\<close> false) or \<^verbatim>\<open>KEY[^:]*:([^\r\n]+)\<close>
  (\<open>params\<close> true) and returns the group: after the key, \<^verbatim>\<open>[^:]*\<close> can only end at the
  first colon, and the group is the longest run of characters up to a line break, at
  least one. \<open>matchField\<close> is \<^verbatim>\<open>(block.match(pattern) || [])[1]\<close>: the group of the leftmost
  match, \<open>None\<close> for \<^verbatim>\<open>undefined\<close>.
\<close>

definition matchHere :: "string \<Rightarrow> bool \<Rightarrow> string \<Rightarrow> string option" where
  "matchHere key params s =
     (if prefix key s then
        (let rest = drop (length key) s;
             rest' = (if params then dropWhile (\<lambda>c. c \<noteq> CHR '':'') rest else rest)
         in case rest' of
              [] \<Rightarrow> None
            | c # v \<Rightarrow>
                if c = CHR '':'' \<and> takeWhile notLineBreak v \<noteq> []
                then Some (takeWhile notLineBreak v) else None)
      else None)"

fun matchField :: "string \<Rightarrow> bool \<Rightarrow> string \<Rightarrow> string option" where
  "matchField key params [] = None"
| "matchField key params (c # cs) =
     (case matchHere key params (c # cs) of
        Some v \<Rightarrow> Some v
      | None \<Rightarrow> matchField key params cs)"

text \<open>\<^verbatim>\<open>str.substring(a, b)\<close> for \<open>a \<le> b\<close>.\<close>

definition substring :: "string \<Rightarrow> nat \<Rightarrow> nat \<Rightarrow> string" where
  "substring str a b = take (b - a) (drop a str)"

text \<open>\<^verbatim>\<open>Date.UTC(y, m, d, h, min)\<close>, then \<^verbatim>\<open>new Date\<close> of that number.\<close>

definition Date_UTC :: "int option \<Rightarrow> int option \<Rightarrow> int option \<Rightarrow> int option \<Rightarrow> int option \<Rightarrow> jsdate" where
  "Date_UTC y m d h mi =
     (case (y, m, d, h, mi) of
        (Some y', Some m', Some d', Some h', Some mi') \<Rightarrow>
          TimeClip (MakeDate (MakeDay (MakeFullYear y') m' d') (MakeTime h' mi' 0 0))
      | _ \<Rightarrow> InvalidDate)"

text \<open>
  \<^verbatim>\<open>parseICalDate\<close>. \<open>None\<close> is its \<^verbatim>\<open>null\<close>, returned for a missing text. Nothing in the
  \<^verbatim>\<open>try\<close> block throws for a text (\<^verbatim>\<open>substring\<close>, \<^verbatim>\<open>parseInt\<close> and \<^verbatim>\<open>Date.UTC\<close> return NaN
  instead), so the \<^verbatim>\<open>catch\<close> is never entered: a text that is no date gives an invalid
  \<^verbatim>\<open>Date\<close> object.
\<close>

definition parseICalDate :: "string option \<Rightarrow> jsdate option" where
  "parseICalDate str =
     (case str of
        None \<Rightarrow> None
      | Some s \<Rightarrow>
          if s = [] then None
          else
            (let y = substring s 0 4;
                 m = substring s 4 6;
                 d = substring s 6 8;
                 h = (if substring s 9 11 = [] then ''00'' else substring s 9 11);
                 mi = (if substring s 11 13 = [] then ''00'' else substring s 11 13)
             in Some (Date_UTC (parseInt y) (map_option (\<lambda>n. n - 1) (parseInt m))
                        (parseInt d) (parseInt h) (parseInt mi))))"

record event =
  event_id :: string
  title :: string
  date :: string
  time :: string
  location :: string
  url :: string

text \<open>
  What a run of the event script takes from outside: the body of the feed (\<open>None\<close> when
  \<^verbatim>\<open>fetch\<close> or \<^verbatim>\<open>response.text()\<close> rejects), the clock and the offset of local time from
  UTC, the texts of a valid date in the locale \<^verbatim>\<open>en-US\<close> and the zone
  \<^verbatim>\<open>America/New_York\<close>, and whether the \<open>k\<close>-th call of \<^verbatim>\<open>sendMail\<close> in the run, for a given
  event, resolves.
\<close>

record runtime =
  fetchText :: "string option"
  now :: int
  tzOffset :: int
  toLocaleDateString :: "int \<Rightarrow> string"
  toLocaleTimeString :: "int \<Rightarrow> string"
  sendMail :: "nat \<Rightarrow> event \<Rightarrow> bool"

text \<open>\<^verbatim>\<open>today = new Date(); today.setHours(0, 0, 0, 0)\<close>: local midnight, as a time value.\<close>

definition today :: "runtime \<Rightarrow> int" where
  "today rt = MakeDate (Day (now rt + tzOffset rt)) (MakeTime 0 0 0 0) - tzOffset rt"

text \<open>The texts of a date; for an invalid date both methods return \<^verbatim>\<open>Invalid Date\<close>.\<close>

definition formatEventDate :: "runtime \<Rightarrow> jsdate option \<Rightarrow> string" where
  "formatEventDate rt start =
     (case start of
        None \<Rightarrow> ''TBD''
      | Some InvalidDate \<Rightarrow> ''Invalid Date''
      | Some (Date t) \<Rightarrow> toLocaleDateString rt t)"

definition formatEventTime :: "runtime \<Rightarrow> jsdate option \<Rightarrow> string" where
  "formatEventTime rt start =
     (case start of
        None \<Rightarrow> ''TBD''
      | Some InvalidDate \<Rightarrow> ''Invalid Date''
      | Some (Date t) \<Rightarrow> toLocaleTimeString rt t)"

text \<open>\<^verbatim>\<open>s.replace(/ENCODING=QUOT[^:]*:/g, '')\<close>.\<close>

function stripEncoding :: "string \<Rightarrow> string" where
  "stripEncoding s =
     (if s = [] then []
      else if prefix ''ENCODING=QUOT'' s
              \<and> dropWhile (\<lambda>c. c \<noteq> CHR '':'') (drop 13 s) \<noteq> []
           then stripEncoding (tl (dropWhile (\<lambda>c. c \<noteq> CHR '':'') (drop 13 s)))
      else hd s # stripEncoding (tl s))"
  by pat_completeness auto
termination
proof (relation "measure length")
  fix s :: string
  assume "s \<noteq> []" and "prefix ''ENCODING=QUOT'' s \<and> dropWhile (\<lambda>c. c \<noteq> CHR '':'') (drop 13 s) \<noteq> []"
  have "length (tl (dropWhile (\<lambda>c. c \<noteq> CHR '':'') (drop 13 s)))
          \<le> length (dropWhile (\<lambda>c. c \<noteq> CHR '':'') (drop 13 s))"
    by simp
  also have "\<dots> \<le> length (drop 13 s)"
    by (rule length_dropWhile_le)
  also have "\<dots> < length s"
    using \<open>s \<noteq> []\<close> by simp
  finally show "(tl (dropWhile (\<lambda>c. c \<noteq> CHR '':'') (drop 13 s)), s) \<in> measure length"
    by simp
qed auto

declare stripEncoding.simps [simp del]

definition emptyText :: string where
  "emptyText = []"

definition cleanTitle :: "string \<Rightarrow> string" where
  "cleanTitle summary =
     trim (replaceAll [backslash] emptyText
       (replaceAll [backslash, CHR '';''] [CHR '';'']
         (replaceAll [backslash, CHR ''n''] [CHR '' '']
           (replaceAll [backslash, CHR '',''] [CHR '','']
             (stripEncoding (if summary = [] then ''Untitled Event'' else summary))))))"

definition cleanLocation :: "string option \<Rightarrow> string" where
  "cleanLocation loc =
     (case loc of
        None \<Rightarrow> ''TBD''
      | Some l \<Rightarrow>
          if l = [] then ''TBD''
          else trim (replaceAll [backslash] emptyText (replaceAll [backslash, CHR '',''] [CHR '',''] l)))"

definition cleanUrl :: "string option \<Rightarrow> string" where
  "cleanUrl u =
     (case u of
        None \<Rightarrow> ''https://yeshiva.campusgroups.com/events''
      | Some v \<Rightarrow> if v = [] then ''https://yeshiva.campusgroups.com/events'' else trim v)"

text \<open>The start of a block, as the loop body computes it.\<close>

definition blockStart :: "string \<Rightarrow> jsdate option" where
  "blockStart block = parseICalDate (matchField ''DTSTART'' True block)"

text \<open>
  The body of the loop over the blocks: \<open>None\<close> when the block is left out by one of the
  two \<^verbatim>\<open>continue\<close>s, else the event pushed. (The field \<^verbatim>\<open>timestamp\<close>, the time of the
  parse, is never read and is not modelled. Nothing in the body throws.)
\<close>

definition parseBlock :: "runtime \<Rightarrow> string \<Rightarrow> event option" where
  "parseBlock rt block =
     (let uid = matchField ''UID'' False block;
          summary = matchField ''SUMMARY'' True block;
          loc = matchField ''LOCATION'' False block;
          u = matchField ''URL'' False block
      in if uid = None \<or> uid = Some [] \<or> summary = None \<or> summary = Some [] then None
         else
           (let start = blockStart block
            in if (case start of None \<Rightarrow> False | Some s \<Rightarrow> date_lt s (today rt)) then None
               else Some \<lparr>event_id = trim (the uid),
                          title = cleanTitle (the summary),
                          date = formatEventDate rt start,
                          time = formatEventTime rt start,
                          location = cleanLocation loc,
                          url = cleanUrl u\<rparr>))"

definition eventBlocks :: "string \<Rightarrow> string list" where
  "eventBlocks icalText =
     drop 1 (split_str (replaceAll [backslash, CHR ''n''] [CHR 0x0A] icalText) ''BEGIN:VEVENT'')"

text \<open>\<^verbatim>\<open>fetchEvents\<close>: \<open>None\<close> when the fetch throws, else the events in feed order.\<close>

definition fetchEvents :: "runtime \<Rightarrow> event list option" where
  "fetchEvents rt =
     (case fetchText rt of
        None \<Rightarrow> None
      | Some icalText \<Rightarrow> Some (List.map_filter (parseBlock rt) (eventBlocks icalText)))"

section \<open>JavaScript runtime: JSON\<close>

text \<open>
  The values that \<^verbatim>\<open>JSON.parse\<close> returns. A number is kept as the text that JavaScript
  prints for it (\<^verbatim>\<open>String(n)\<close>): numbers are floating point, and the text of the number
  read from a literal is a parameter of the parser. The properties of an object are in
  the order in which JavaScript enumerates them.
\<close>

datatype jsvalue =
    JNull
  | JBool bool
  | JNumber string
  | JString string
  | JArray "jsvalue list"
  | JObject "(string \<times> jsvalue) list"

definition dquote :: char where
  "dquote = CHR 0x22"

definition lineFeed :: char where
  "lineFeed = CHR 0x0A"

subsection \<open>\<^verbatim>\<open>JSON.stringify(value, null, 2)\<close>\<close>

definition hexDigit :: "nat \<Rightarrow> char" where
  "hexDigit d = ''0123456789abcdef'' ! d"

definition hex4 :: "nat \<Rightarrow> string" where
  "hex4 n = [hexDigit (n div 4096 mod 16), hexDigit (n div 256 mod 16),
             hexDigit (n div 16 mod 16), hexDigit (n mod 16)]"

text \<open>\<^verbatim>\<open>QuoteJSONString\<close>: the quote, the backslash and the control characters are escaped,
  every other character is written as it is. (A lone surrogate is escaped too; text in
  UTF-8 holds none.)\<close>

definition escapeJSON :: "char \<Rightarrow> string" where
  "escapeJSON c =
     (if c = dquote then [backslash, dquote]
      else if c = backslash then [backslash, backslash]
      else if c = CHR 0x08 then [backslash, CHR ''b'']
      else if c = CHR 0x09 then [backslash, CHR ''t'']
      else if c = CHR 0x0A then [backslash, CHR ''n'']
      else if c = CHR 0x0C then [backslash, CHR ''f'']
      else if c = CHR 0x0D then [backslash, CHR ''r'']
      else if (of_char c :: nat) < 32 then [backslash, CHR ''u''] @ hex4 (of_char c)
      else [c])"

definition quoteJSON :: "string \<Rightarrow> string" where
  "quoteJSON s = dquote # concat (map escapeJSON s) @ [dquote]"

fun joinWith :: "string \<Rightarrow> string list \<Rightarrow> string" where
  "joinWith sep [] = []"
| "joinWith sep [x] = x"
| "joinWith sep (x # y # zs) = x @ sep @ joinWith sep (y # zs)"

definition indentation :: "nat \<Rightarrow> string" where
  "indentation n = replicate (2 * n) (CHR '' '')"

text \<open>\<open>stringifyAt n v\<close> is the text of \<open>v\<close> at nesting depth \<open>n\<close>. A number that is not
  finite is written \<^verbatim>\<open>null\<close>.\<close>

fun stringifyAt :: "nat \<Rightarrow> jsvalue \<Rightarrow> string" where
  "stringifyAt n JNull = ''null''"
| "stringifyAt n (JBool b) = (if b then ''true'' else ''false'')"
| "stringifyAt n (JNumber t) =
     (if t = ''Infinity'' \<or> t = ''-Infinity'' \<or> t = ''NaN'' then ''null'' else t)"
| "stringifyAt n (JString s) = quoteJSON s"
| "stringifyAt n (JArray xs) =
     (if xs = [] then ''[]''
      else ''['' @ [lineFeed] @ indentation (Suc n)
           @ joinWith ('','' @ [lineFeed] @ indentation (Suc n)) (map (stringifyAt (Suc n)) xs)
           @ [lineFeed] @ indentation n @ '']'')"
| "stringifyAt n (JObject props) =
     (if props = [] then ''{}''
      else ''{'' @ [lineFeed] @ indentation (Suc n)
           @ joinWith ('','' @ [lineFeed] @ indentation (Suc n))
               (map (\<lambda>p. quoteJSON (fst p) @ '': '' @ stringifyAt (Suc n) (snd p)) props)
           @ [lineFeed] @ indentation n @ ''}'')"

definition stringifyJSON :: "jsvalue \<Rightarrow> string" where
  "stringifyJSON v = stringifyAt 0 v"

subsection \<open>\<^verbatim>\<open>JSON.parse\<close>\<close>

text \<open>
  The parser reads the text character by character, with a stack of the arrays and
  objects that are open. It accepts the JSON grammar of ECMAScript and nothing else; a
  text outside the grammar is a \<^verbatim>\<open>SyntaxError\<close> (\<open>Failed\<close>).
\<close>

datatype numstate = NMinus | NZero | NInt | NDot | NFrac | NExp | NExpSign | NExpDigits

datatype mode =
    ExpectValue
  | ExpectValueOrClose
  | ExpectKeyOrClose
  | ExpectKey
  | ExpectColon
  | AfterValue
  | InString bool string "nat option"
  | InEscape bool string "nat option"
  | InHex bool string "nat option" nat nat
  | InNumber numstate string
  | InLiteral string jsvalue

datatype frame =
    InArray "jsvalue list"
  | InObject "(string \<times> jsvalue) list"
  | InMember "(string \<times> jsvalue) list" string

datatype pstate = Parsing mode "frame list" | Done jsvalue | Failed

definition isJsonSpace :: "char \<Rightarrow> bool" where
  "isJsonSpace c = (c = CHR '' '' \<or> c = CHR 0x09 \<or> c = CHR 0x0A \<or> c = CHR 0x0D)"

definition isDigit :: "char \<Rightarrow> bool" where
  "isDigit c = (48 \<le> (of_char c :: nat) \<and> (of_char c :: nat) \<le> 57)"

text \<open>A property is set on an object: a property of that name keeps its place and gets
  the value, a new one comes last.\<close>

definition putProp :: "string \<Rightarrow> jsvalue \<Rightarrow> (string \<times> jsvalue) list \<Rightarrow> (string \<times> jsvalue) list" where
  "putProp k v props =
     (if k \<in> fst ` set props then map (\<lambda>p. if fst p = k then (k, v) else p) props
      else props @ [(k, v)])"

text \<open>JavaScript enumerates the properties whose names are array indices first, by index,
  then the others in the order of their creation.\<close>

definition indexValue :: "string \<Rightarrow> int" where
  "indexValue k = foldl (\<lambda>a c. a * 10 + (of_char c - 48)) 0 k"

definition isArrayIndex :: "string \<Rightarrow> bool" where
  "isArrayIndex k =
     (k \<noteq> [] \<and> list_all isDigit k \<and> (k = ''0'' \<or> hd k \<noteq> CHR ''0'')
      \<and> indexValue k < 4294967295)"

definition orderProps :: "(string \<times> jsvalue) list \<Rightarrow> (string \<times> jsvalue) list" where
  "orderProps props =
     sort_key (\<lambda>p. indexValue (fst p)) (filter (\<lambda>p. isArrayIndex (fst p)) props)
     @ filter (\<lambda>p. \<not> isArrayIndex (fst p)) props"

text \<open>A value is complete: it is the result, an element of the open array, or the value
  of the open member.\<close>

definition complete :: "jsvalue \<Rightarrow> frame list \<Rightarrow> pstate" where
  "complete v stack =
     (case stack of
        [] \<Rightarrow> Done v
      | InArray xs # rest \<Rightarrow> Parsing AfterValue (InArray (xs @ [v]) # rest)
      | InMember props k # rest \<Rightarrow> Parsing AfterValue (InObject (putProp k v props) # rest)
      | InObject props # rest \<Rightarrow> Failed)"

definition closeArray :: "frame list \<Rightarrow> pstate" where
  "closeArray stack =
     (case stack of InArray xs # rest \<Rightarrow> complete (JArray xs) rest | _ \<Rightarrow> Failed)"

definition closeObject :: "frame list \<Rightarrow> pstate" where
  "closeObject stack =
     (case stack of InObject props # rest \<Rightarrow> complete (JObject (orderProps props)) rest | _ \<Rightarrow> Failed)"

text \<open>A character after a complete value.\<close>

definition stepAfter :: "pstate \<Rightarrow> char \<Rightarrow> pstate" where
  "stepAfter st c =
     (case st of
        Done v \<Rightarrow> if isJsonSpace c then Done v else Failed
      | Parsing m stack \<Rightarrow>
          if isJsonSpace c then Parsing AfterValue stack
          else (case stack of
                  InArray xs # rest \<Rightarrow>
                    if c = CHR '','' then Parsing ExpectValue stack
                    else if c = CHR '']'' then closeArray stack
                    else Failed
                | InObject props # rest \<Rightarrow>
                    if c = CHR '','' then Parsing ExpectKey stack
                    else if c = CHR ''}'' then closeObject stack
                    else Failed
                | _ \<Rightarrow> Failed)
      | Failed \<Rightarrow> Failed)"

text \<open>The first character of a value.\<close>

definition startValue :: "frame list \<Rightarrow> char \<Rightarrow> pstate" where
  "startValue stack c =
     (if c = dquote then Parsing (InString False [] None) stack
      else if c = CHR ''['' then Parsing ExpectValueOrClose (InArray [] # stack)
      else if c = CHR ''{'' then Parsing ExpectKeyOrClose (InObject [] # stack)
      else if c = CHR ''-'' then Parsing (InNumber NMinus [c]) stack
      else if c = CHR ''0'' then Parsing (InNumber NZero [c]) stack
      else if isDigit c then Parsing (InNumber NInt [c]) stack
      else if c = CHR ''t'' then Parsing (InLiteral ''rue'' (JBool True)) stack
      else if c = CHR ''f'' then Parsing (InLiteral ''alse'' (JBool False)) stack
      else if c = CHR ''n'' then Parsing (InLiteral ''ull'' JNull) stack
      else Failed)"

text \<open>The UTF-8 bytes of a code point. An escape \<^verbatim>\<open>\uXXXX\<close> names a UTF-16 code unit; a
  high surrogate waits for the low surrogate that may follow it.\<close>

definition utf8 :: "nat \<Rightarrow> string" where
  "utf8 cp =
     (if cp < 128 then [char_of cp]
      else if cp < 2048 then [char_of (192 + cp div 64), char_of (128 + cp mod 64)]
      else if cp < 65536 then
        [char_of (224 + cp div 4096), char_of (128 + cp div 64 mod 64), char_of (128 + cp mod 64)]
      else
        [char_of (240 + cp div 262144), char_of (128 + cp div 4096 mod 64),
         char_of (128 + cp div 64 mod 64), char_of (128 + cp mod 64)])"

definition flushSurrogate :: "nat option \<Rightarrow> string \<Rightarrow> string" where
  "flushSurrogate hi acc = (case hi of None \<Rightarrow> acc | Some h \<Rightarrow> acc @ utf8 h)"

definition addCodeUnit :: "bool \<Rightarrow> string \<Rightarrow> nat option \<Rightarrow> nat \<Rightarrow> mode" where
  "addCodeUnit isKey acc hi u =
     (case hi of
        Some h \<Rightarrow>
          if 56320 \<le> u \<and> u < 57344
          then InString isKey (acc @ utf8 (65536 + (h - 55296) * 1024 + (u - 56320))) None
          else if 55296 \<le> u \<and> u < 56320 then InString isKey (acc @ utf8 h) (Some u)
          else InString isKey (acc @ utf8 h @ utf8 u) None
      | None \<Rightarrow>
          if 55296 \<le> u \<and> u < 56320 then InString isKey acc (Some u)
          else InString isKey (acc @ utf8 u) None)"

definition hexValue :: "char \<Rightarrow> nat option" where
  "hexValue c =
     (let n = of_char c :: nat
      in if 48 \<le> n \<and> n \<le> 57 then Some (n - 48)
         else if 97 \<le> n \<and> n \<le> 102 then Some (n - 87)
         else if 65 \<le> n \<and> n \<le> 70 then Some (n - 55)
         else None)"

definition unescape :: "char \<Rightarrow> char option" where
  "unescape c =
     (if c = dquote then Some dquote
      else if c = backslash then Some backslash
      else if c = CHR ''/'' then Some (CHR ''/'')
      else if c = CHR ''b'' then Some (CHR 0x08)
      else if c = CHR ''f'' then Some (CHR 0x0C)
      else if c = CHR ''n'' then Some (CHR 0x0A)
      else if c = CHR ''r'' then Some (CHR 0x0D)
      else if c = CHR ''t'' then Some (CHR 0x09)
      else None)"

text \<open>The end of a string: a key opens a member of the open object, a value is complete.\<close>

definition endString :: "bool \<Rightarrow> string \<Rightarrow> frame list \<Rightarrow> pstate" where
  "endString isKey s stack =
     (if isKey then
        (case stack of
           InObject props # rest \<Rightarrow> Parsing ExpectColon (InMember props s # rest)
         | _ \<Rightarrow> Failed)
      else complete (JString s) stack)"

text \<open>A character inside a number: the next state of the number, \<open>None\<close> when the
  character cannot follow. A number may end in the states \<open>NZero\<close>, \<open>NInt\<close>, \<open>NFrac\<close>
  and \<open>NExpDigits\<close>.\<close>

definition stepNumber :: "numstate \<Rightarrow> char \<Rightarrow> numstate option" where
  "stepNumber ns c =
     (case ns of
        NMinus \<Rightarrow> if c = CHR ''0'' then Some NZero else if isDigit c then Some NInt else None
      | NZero \<Rightarrow>
          if c = CHR ''.'' then Some NDot
          else if c = CHR ''e'' \<or> c = CHR ''E'' then Some NExp else None
      | NInt \<Rightarrow>
          if isDigit c then Some NInt
          else if c = CHR ''.'' then Some NDot
          else if c = CHR ''e'' \<or> c = CHR ''E'' then Some NExp else None
      | NDot \<Rightarrow> if isDigit c then Some NFrac else None
      | NFrac \<Rightarrow>
          if isDigit c then Some NFrac
          else if c = CHR ''e'' \<or> c = CHR ''E'' then Some NExp else None
      | NExp \<Rightarrow>
          if c = CHR ''+'' \<or> c = CHR ''-'' then Some NExpSign
          else if isDigit c then Some NExpDigits else None
      | NExpSign \<Rightarrow> if isDigit c then Some NExpDigits else None
      | NExpDigits \<Rightarrow> if isDigit c then Some NExpDigits else None)"

definition numberMayEnd :: "numstate \<Rightarrow> bool" where
  "numberMayEnd ns = (ns = NZero \<or> ns = NInt \<or> ns = NFrac \<or> ns = NExpDigits)"

text \<open>One character. \<open>numberText\<close> is the parameter: the text of the number that a literal
  denotes.\<close>

definition step :: "(string \<Rightarrow> string) \<Rightarrow> pstate \<Rightarrow> char \<Rightarrow> pstate" where
  "step numberText st c =
     (case st of
        Failed \<Rightarrow> Failed
      | Done v \<Rightarrow> stepAfter st c
      | Parsing m stack \<Rightarrow>
          (case m of
             ExpectValue \<Rightarrow> if isJsonSpace c then st else startValue stack c
           | ExpectValueOrClose \<Rightarrow>
               if isJsonSpace c then st
               else if c = CHR '']'' then closeArray stack
               else startValue stack c
           | ExpectKeyOrClose \<Rightarrow>
               if isJsonSpace c then st
               else if c = CHR ''}'' then closeObject stack
               else if c = dquote then Parsing (InString True [] None) stack
               else Failed
           | ExpectKey \<Rightarrow>
               if isJsonSpace c then st
               else if c = dquote then Parsing (InString True [] None) stack
               else Failed
           | ExpectColon \<Rightarrow>
               if isJsonSpace c then st
               else if c = CHR '':'' then Parsing ExpectValue stack
               else Failed
           | AfterValue \<Rightarrow> stepAfter st c
           | InString isKey acc hi \<Rightarrow>
               if c = dquote then endString isKey (flushSurrogate hi acc) stack
               else if c = backslash then Parsing (InEscape isKey acc hi) stack
               else if (of_char c :: nat) < 32 then Failed
               else Parsing (InString isKey (flushSurrogate hi acc @ [c]) None) stack
           | InEscape isKey acc hi \<Rightarrow>
               if c = CHR ''u'' then Parsing (InHex isKey acc hi 0 0) stack
               else (case unescape c of
                       None \<Rightarrow> Failed
                     | Some x \<Rightarrow> Parsing (InString isKey (flushSurrogate hi acc @ [x]) None) stack)
           | InHex isKey acc hi n u \<Rightarrow>
               (case hexValue c of
                  None \<Rightarrow> Failed
                | Some d \<Rightarrow>
                    if n = 3 then Parsing (addCodeUnit isKey acc hi (u * 16 + d)) stack
                    else Parsing (InHex isKey acc hi (Suc n) (u * 16 + d)) stack)
           | InNumber ns lit \<Rightarrow>
               (case stepNumber ns c of
                  Some ns' \<Rightarrow> Parsing (InNumber ns' (lit @ [c])) stack
                | None \<Rightarrow>
                    if numberMayEnd ns then stepAfter (complete (JNumber (numberText lit)) stack) c
                    else Failed)
           | InLiteral rest v \<Rightarrow>
               (case rest of
                  [] \<Rightarrow> Failed
                | x # xs \<Rightarrow>
                    if c \<noteq> x then Failed
                    else if xs = [] then complete v stack
                    else Parsing (InLiteral xs v) stack)))"

text \<open>The end of the text: \<open>None\<close> is the \<^verbatim>\<open>SyntaxError\<close>.\<close>

definition finish :: "(string \<Rightarrow> string) \<Rightarrow> pstate \<Rightarrow> jsvalue option" where
  "finish numberText st =
     (case st of
        Done v \<Rightarrow> Some v
      | Parsing (InNumber ns lit) [] \<Rightarrow>
          if numberMayEnd ns then Some (JNumber (numberText lit)) else None
      | _ \<Rightarrow> None)"

definition parseJSON :: "(string \<Rightarrow> string) \<Rightarrow> string \<Rightarrow> jsvalue option" where
  "parseJSON numberText text = finish numberText (foldl (step numberText) (Parsing ExpectValue []) text)"

text \<open>The cache \<^verbatim>\<open>{ seenIds: [...] }\<close> of a list of ids.\<close>

definition cacheOf :: "string list \<Rightarrow> jsvalue" where
  "cacheOf ids = JObject [(''seenIds'', JArray (map JString ids))]"

section \<open>Event alerts: the seen-set and the run\<close>

text \<open>
  The state file \<^verbatim>\<open>events-cache.json\<close> is its text, or \<open>None\<close> when it does not exist. The
  functions of a run take the JSON of the runtime as a parameter: \<open>JSON_parse\<close> gives
  \<open>None\<close> where \<^verbatim>\<open>JSON.parse\<close> throws. \<open>ecmaJson\<close> is the JSON of ECMAScript, as modelled
  above.
\<close>

record json =
  JSON_parse :: "string \<Rightarrow> jsvalue option"
  JSON_stringify :: "jsvalue \<Rightarrow> string"

definition ecmaJson :: "(string \<Rightarrow> string) \<Rightarrow> json" where
  "ecmaJson numberText = \<lparr>JSON_parse = parseJSON numberText, JSON_stringify = stringifyJSON\<rparr>"

text \<open>\<^verbatim>\<open>loadCache\<close>: the \<^verbatim>\<open>try\<close> block returns what \<^verbatim>\<open>JSON.parse\<close> makes of the file if the file
  exists, whatever value that is; a missing file falls through, and an exception is
  caught, to \<^verbatim>\<open>return { seenIds: [] }\<close>.\<close>

definition loadCache :: "json \<Rightarrow> string option \<Rightarrow> jsvalue" where
  "loadCache js file =
     (case file of
        None \<Rightarrow> cacheOf []
      | Some text \<Rightarrow>
          (case JSON_parse js text of
             None \<Rightarrow> cacheOf []
           | Some v \<Rightarrow> v))"

text \<open>\<^verbatim>\<open>saveCache\<close> replaces the file by the text of the cache; the result is the new file.
  (The write itself is taken to succeed.)\<close>

definition saveCache :: "json \<Rightarrow> jsvalue \<Rightarrow> string option" where
  "saveCache js c = Some (JSON_stringify js c)"

text \<open>What \<^verbatim>\<open>main\<close> does with the cache can throw a \<^verbatim>\<open>TypeError\<close>.\<close>

datatype error = TypeError

text \<open>
  \<^verbatim>\<open>cache.seenIds\<close>: the property of an object, \<^verbatim>\<open>undefined\<close> (\<open>None\<close>) when the object has
  none of that name and on an array, a text, a number and a boolean; reading a property
  of \<^verbatim>\<open>null\<close> throws.
\<close>

definition readSeenIds :: "jsvalue \<Rightarrow> error + jsvalue option" where
  "readSeenIds c =
     (case c of
        JNull \<Rightarrow> Inl TypeError
      | JObject props \<Rightarrow> Inr (map_of props ''seenIds'')
      | _ \<Rightarrow> Inr None)"

text \<open>
  A JavaScript \<^verbatim>\<open>Set\<close> keeps its elements in insertion order, each once: a list.
  \<^verbatim>\<open>Array.from(set)\<close> is that list. Two elements are the same when they are the same
  text, number, boolean or \<^verbatim>\<open>null\<close>; an array or an object is the same as itself only, and
  the arrays and objects of a parsed file are all different.
\<close>

definition isPrimitive :: "jsvalue \<Rightarrow> bool" where
  "isPrimitive v = (case v of JArray xs \<Rightarrow> False | JObject props \<Rightarrow> False | _ \<Rightarrow> True)"

definition Set_has :: "jsvalue list \<Rightarrow> jsvalue \<Rightarrow> bool" where
  "Set_has s x = (isPrimitive x \<and> x \<in> set s)"

definition Set_add :: "jsvalue list \<Rightarrow> jsvalue \<Rightarrow> jsvalue list" where
  "Set_add s x = (if Set_has s x then s else s @ [x])"

text \<open>The characters of a text (its code points), each with its bytes.\<close>

fun codePoints :: "string \<Rightarrow> string list" where
  "codePoints [] = []"
| "codePoints (c # cs) =
     (let n = (if 240 \<le> (of_char c :: nat) then 3
               else if 224 \<le> (of_char c :: nat) then 2
               else if 192 \<le> (of_char c :: nat) then 1 else 0)
      in (c # take n cs) # codePoints (drop n cs))"

text \<open>
  \<^verbatim>\<open>new Set(iterable)\<close>: empty for \<^verbatim>\<open>undefined\<close> and \<^verbatim>\<open>null\<close>, the elements of an array, the
  characters of a text; a number, a boolean and an object are not iterable, and the
  constructor throws.
\<close>

definition new_Set :: "jsvalue option \<Rightarrow> error + jsvalue list" where
  "new_Set iterable =
     (case iterable of
        None \<Rightarrow> Inr []
      | Some JNull \<Rightarrow> Inr []
      | Some (JArray xs) \<Rightarrow> Inr (foldl Set_add [] xs)
      | Some (JString s) \<Rightarrow> Inr (foldl Set_add [] (map JString (codePoints s)))
      | Some _ \<Rightarrow> Inl TypeError)"

text \<open>
  \<^verbatim>\<open>cache.seenIds = Array.from(seenIds)\<close>, as the value that \<^verbatim>\<open>saveCache\<close> then writes. On an
  object the property is set. On an array the assignment adds a property that is no
  element, and \<^verbatim>\<open>JSON.stringify\<close> writes the elements only: what is written is the array
  as it was. On a text, a number or a boolean the assignment throws (the script is a
  module, hence in strict mode).
\<close>

definition writeSeenIds :: "jsvalue \<Rightarrow> jsvalue list \<Rightarrow> error + jsvalue" where
  "writeSeenIds c ids =
     (case c of
        JObject props \<Rightarrow> Inr (JObject (putProp ''seenIds'' (JArray ids) props))
      | JArray xs \<Rightarrow> Inr (JArray xs)
      | _ \<Rightarrow> Inl TypeError)"

text \<open>\<^verbatim>\<open>events.filter(e => !seenIds.has(e.id))\<close>.\<close>

definition newEvents :: "jsvalue list \<Rightarrow> event list \<Rightarrow> event list" where
  "newEvents seen events = filter (\<lambda>e. \<not> Set_has seen (JString (event_id e))) events"

text \<open>
  The loop that sends the mails, from the \<open>k\<close>-th call of \<^verbatim>\<open>sendMail\<close> on: the events
  delivered, and whether every call resolved. The first call that rejects throws, and
  the events after it are not sent. (The body of a mail is the HTML template filled with
  the event's title, date, time, location and url; a delivery is recorded as its event.)
\<close>

fun sendEmails :: "runtime \<Rightarrow> nat \<Rightarrow> event list \<Rightarrow> event list \<times> bool" where
  "sendEmails rt k [] = ([], True)"
| "sendEmails rt k (e # es) =
     (if sendMail rt k e
      then (let (delivered, ok) = sendEmails rt (Suc k) es in (e # delivered, ok))
      else ([], False))"

text \<open>\<^verbatim>\<open>seenIds.add(event.id)\<close> for every new event.\<close>

definition markSeen :: "jsvalue list \<Rightarrow> event list \<Rightarrow> jsvalue list" where
  "markSeen seen new = foldl (\<lambda>s e. Set_add s (JString (event_id e))) seen new"

text \<open>What a run leaves behind: its exit code, the mails delivered, and the state file.\<close>

record outcome =
  exitCode :: nat
  delivered :: "event list"
  cacheFile :: "string option"

text \<open>
  \<^verbatim>\<open>main\<close>. An exception anywhere in the \<^verbatim>\<open>try\<close> block ends the run with
  \<^verbatim>\<open>process.exit(1)\<close>; \<^verbatim>\<open>saveCache\<close> is the last statement of the block.
\<close>

definition main :: "json \<Rightarrow> runtime \<Rightarrow> string option \<Rightarrow> outcome" where
  "main js rt file =
     (case fetchEvents rt of
        None \<Rightarrow> \<lparr>exitCode = 1, delivered = [], cacheFile = file\<rparr>
      | Some events \<Rightarrow>
          (let c = loadCache js file
           in case readSeenIds c of
                Inl err \<Rightarrow> \<lparr>exitCode = 1, delivered = [], cacheFile = file\<rparr>
              | Inr ids \<Rightarrow>
                  (case new_Set ids of
                     Inl err \<Rightarrow> \<lparr>exitCode = 1, delivered = [], cacheFile = file\<rparr>
                   | Inr seen \<Rightarrow>
                       (let new = newEvents seen events;
                            eventsToNotify = take 10 new;
                            (sent, ok) = sendEmails rt 0 eventsToNotify
                        in if \<not> ok then \<lparr>exitCode = 1, delivered = sent, cacheFile = file\<rparr>
                           else
                             (case writeSeenIds c (markSeen seen new) of
                                Inl err \<Rightarrow> \<lparr>exitCode = 1, delivered = sent, cacheFile = file\<rparr>
                              | Inr c' \<Rightarrow>
                                  \<lparr>exitCode = 0, delivered = sent,
                                   cacheFile = saveCache js c'\<rparr>)))))"


section \<open>Notions used to state the properties\<close>

text \<open>Two rows are the same shift when date, start time and end time are identical.\<close>

definition sameShift :: "row \<Rightarrow> row \<Rightarrow> bool" where
  "sameShift a b =
     (a ''Date'' = b ''Date'' \<and> a ''Start Time'' = b ''Start Time'' \<and> a ''End Time'' = b ''End Time'')"

text \<open>A block whose start is a valid instant before \<^verbatim>\<open>today\<close>.\<close>

definition startsBeforeToday :: "runtime \<Rightarrow> string \<Rightarrow> bool" where
  "startsBeforeToday rt block =
     (case blockStart block of
        Some (Date t) \<Rightarrow> t < today rt
      | _ \<Rightarrow> False)"

text \<open>The \<^verbatim>\<open>Set\<close> that a run makes of the state file, \<open>None\<close> when making it throws.\<close>

definition loadedSeen :: "json \<Rightarrow> string option \<Rightarrow> jsvalue list option" where
  "loadedSeen js file =
     (case readSeenIds (loadCache js file) of
        Inl err \<Rightarrow> None
      | Inr ids \<Rightarrow> (case new_Set ids of Inl err \<Rightarrow> None | Inr seen \<Rightarrow> Some seen))"

text \<open>The seen-set that a run loads from a state file: the ids in that \<^verbatim>\<open>Set\<close>.\<close>

definition seenSet :: "json \<Rightarrow> string option \<Rightarrow> string set" where
  "seenSet js file =
     (case loadedSeen js file of None \<Rightarrow> {} | Some seen \<Rightarrow> {i. JString i \<in> set seen})"

text \<open>The new events of a run, as \<^verbatim>\<open>main\<close> computes them from the feed and the state file
  (none when the run throws before).\<close>

definition newEventsOfRun :: "json \<Rightarrow> runtime \<Rightarrow> string option \<Rightarrow> event list" where
  "newEventsOfRun js rt file =
     (case fetchEvents rt of
        None \<Rightarrow> []
      | Some events \<Rightarrow>
          (case loadedSeen js file of None \<Rightarrow> [] | Some seen \<Rightarrow> newEvents seen events))"

text \<open>The cache that a run hands to \<^verbatim>\<open>saveCache\<close> when it gets there (the loaded cache
  itself where the run throws before).\<close>

definition cacheToSave :: "json \<Rightarrow> runtime \<Rightarrow> string option \<Rightarrow> jsvalue" where
  "cacheToSave js rt file =
     (case loadedSeen js file of
        None \<Rightarrow> loadCache js file
      | Some seen \<Rightarrow>
          (case writeSeenIds (loadCache js file) (markSeen seen (newEventsOfRun js rt file)) of
             Inl err \<Rightarrow> loadCache js file
           | Inr c \<Rightarrow> c))"

text \<open>The ids that a cache holds: the texts in the array \<^verbatim>\<open>seenIds\<close> of an object.\<close>

definition storedIds :: "jsvalue \<Rightarrow> string list" where
  "storedIds c =
     (case c of
        JObject props \<Rightarrow>
          (case map_of props ''seenIds'' of
             Some (JArray xs) \<Rightarrow> concat (map (\<lambda>x. case x of JString i \<Rightarrow> [i] | _ \<Rightarrow> []) xs)
           | _ \<Rightarrow> [])
      | _ \<Rightarrow> [])"

definition isArray :: "jsvalue \<Rightarrow> bool" where
  "isArray v = (case v of JArray xs \<Rightarrow> True | _ \<Rightarrow> False)"

text \<open>A run fails when the fetch throws or a call of \<^verbatim>\<open>sendMail\<close> rejects.\<close>

definition runFails :: "json \<Rightarrow> runtime \<Rightarrow> string option \<Rightarrow> bool" where
  "runFails js rt file =
     (fetchText rt = None
      \<or> \<not> snd (sendEmails rt 0 (take 10 (newEventsOfRun js rt file))))"

text \<open>\<^verbatim>\<open>JSON.parse\<close> reads back the text that \<^verbatim>\<open>JSON.stringify\<close> writes for a value.\<close>

definition readsBack :: "json \<Rightarrow> jsvalue \<Rightarrow> bool" where
  "readsBack js v = (JSON_parse js (JSON_stringify js v) = Some v)"



section \<open>Examples\<close>

text \<open>Hours that are whole numbers, where the arithmetic of JavaScript numbers is exact;
  \<open>None\<close> is NaN.\<close>

definition parseWhole :: "string \<Rightarrow> int option" where
  "parseWhole s =
     (let ds = takeWhile (\<lambda>c. digitValue 10 c \<noteq> None) (dropWhile isWhiteSpace s)
      in if ds = [] then None
         else Some (foldl (\<lambda>a c. a * 10 + int (the (digitValue 10 c))) 0 ds))"

definition wholeHours :: "int option numberOps" where
  "wholeHours =
     \<lparr>parseFloat = parseWhole,
      truthy = (\<lambda>n. n \<noteq> None \<and> n \<noteq> Some 0),
      zero = Some 0,
      add = (\<lambda>a b. case a of None \<Rightarrow> None | Some x \<Rightarrow> map_option (\<lambda>y. x + y) b),
      isOne = (\<lambda>n. n = Some 1),
      numberToString = (\<lambda>n. case n of None \<Rightarrow> ''NaN'' | Some i \<Rightarrow> String_int i)\<rparr>"

definition shiftRow :: "string \<Rightarrow> string \<Rightarrow> string \<Rightarrow> string \<Rightarrow> row" where
  "shiftRow d s e h = map_of [(''Date'', d), (''Start Time'', s), (''End Time'', e), (''Hours'', h)]"

definition noon_2025_12_10 :: int where
  "noon_2025_12_10 = localMidnight 2025 12 10 + 12 * 3600000"

text \<open>
  Feeds and runs of the event script. A run of the examples is at noon of 2025-12-10 UTC,
  in a zone at UTC; the texts of a valid date are stand-ins for the locale's.
\<close>

definition lineBreak :: string where
  "lineBreak = [CHR 0x0A]"

definition vevent :: "string \<Rightarrow> string \<Rightarrow> string \<Rightarrow> string" where
  "vevent uid summary dtstart =
     ''BEGIN:VEVENT'' @ lineBreak @ ''UID:'' @ uid @ lineBreak @ ''SUMMARY:'' @ summary @ lineBreak
     @ ''DTSTART:'' @ dtstart @ lineBreak @ ''END:VEVENT'' @ lineBreak"

definition undated :: "string \<Rightarrow> string" where
  "undated uid = ''BEGIN:VEVENT'' @ lineBreak @ ''UID:'' @ uid @ lineBreak @ ''SUMMARY:Talk'' @ lineBreak"

definition undatedEvent :: "string \<Rightarrow> event" where
  "undatedEvent uid =
     \<lparr>event_id = uid, title = ''Talk'', date = ''TBD'', time = ''TBD'', location = ''TBD'',
      url = ''https://yeshiva.campusgroups.com/events''\<rparr>"

definition runAtNoon :: "string option \<Rightarrow> (nat \<Rightarrow> event \<Rightarrow> bool) \<Rightarrow> runtime" where
  "runAtNoon feed mailer =
     \<lparr>fetchText = feed, now = noon_2025_12_10, tzOffset = 0,
      toLocaleDateString = (\<lambda>t. ''(date)''), toLocaleTimeString = (\<lambda>t. ''(time)''),
      sendMail = mailer\<rparr>"

definition elevenIds :: "string list" where
  "elevenIds = [''a'', ''b'', ''c'', ''d'', ''e'', ''f'', ''g'', ''h'', ''i'', ''j'', ''k'']"

definition feedOfEleven :: string where
  "feedOfEleven = concat (map undated elevenIds)"

definition feedOldAndNew :: string where
  "feedOldAndNew = vevent ''old'' ''Talk'' ''20251201T180000'' @ vevent ''new'' ''Talk'' ''20251211T180000''"

definition feedWithoutDate :: string where
  "feedWithoutDate = vevent ''evt-1'' ''Open House'' ''TBA''"

definition secondMailFails :: "nat \<Rightarrow> event \<Rightarrow> bool" where
  "secondMailFails k e = (k \<noteq> 1)"

definition everyMailArrives :: "nat \<Rightarrow> event \<Rightarrow> bool" where
  "everyMailArrives k e = True"

text \<open>The JSON of the examples: ECMAScript's, with the text of a number taken to be its
  literal (no example holds a number).\<close>

definition exampleJson :: json where
  "exampleJson = ecmaJson (\<lambda>literal. literal)"

section \<open>The pay period\<close>

lemma getPayPeriod_index:
  assumes "(d - ANCHOR_DATE) div 86400000 div 14 = k"
  shows "getPayPeriod d =
    \<lparr>periodStart = setDate ANCHOR_DATE (getDate ANCHOR_DATE + k * 14),
     periodEnd = setDate (setDate ANCHOR_DATE (getDate ANCHOR_DATE + k * 14))
        (getDate (setDate ANCHOR_DATE (getDate ANCHOR_DATE + k * 14)) + 14 - 1)\<rparr>"
  using assms by (simp add: getPayPeriod_def Let_def PERIOD_LENGTH_DAYS_def)

lemma daysDiff_within_day:
  assumes "0 \<le> tod" "tod < msPerDay"
  shows "(ANCHOR_DATE + n * msPerDay + tod - ANCHOR_DATE) div 86400000 = n"
proof -
  have "(n * 86400000 + tod) div 86400000 = n"
    using assms by (simp add: msPerDay_def)
  then show ?thesis by (simp add: msPerDay_def)
qed

lemma period0_start: "setDate ANCHOR_DATE (getDate ANCHOR_DATE + 0 * 14) = localMidnight 2025 11 29"
  by code_simp

lemma period0_end:
  "setDate (localMidnight 2025 11 29) (getDate (localMidnight 2025 11 29) + 14 - 1) = localMidnight 2025 12 12"
  by code_simp

lemma period1_start: "setDate ANCHOR_DATE (getDate ANCHOR_DATE + 1 * 14) = localMidnight 2025 12 13"
  by code_simp

lemma period1_end:
  "setDate (localMidnight 2025 12 13) (getDate (localMidnight 2025 12 13) + 14 - 1) = localMidnight 2025 12 26"
  by code_simp

lemma day_2025_12_10: "localMidnight 2025 12 10 = ANCHOR_DATE + 11 * msPerDay"
  by code_simp

lemma day_2025_12_13: "localMidnight 2025 12 13 = ANCHOR_DATE + 14 * msPerDay"
  by code_simp

lemma formatDate_bounds:
  "formatDate (localMidnight 2025 11 29) = ''11/29/2025''"
  "formatDate (localMidnight 2025 12 12) = ''12/12/2025''"
  "formatDate (localMidnight 2025 12 13) = ''12/13/2025''"
  "formatDate (localMidnight 2025 12 26) = ''12/26/2025''"
  by code_simp+

lemma period_of_2025_12_10:
  assumes "0 \<le> tod" "tod < msPerDay"
  shows "getPayPeriod (localMidnight 2025 12 10 + tod) =
           \<lparr>periodStart = localMidnight 2025 11 29, periodEnd = localMidnight 2025 12 12\<rparr>"
proof -
  have "(localMidnight 2025 12 10 + tod - ANCHOR_DATE) div 86400000 div 14 = 0"
    using daysDiff_within_day[OF assms, of 11] by (simp add: day_2025_12_10)
  from getPayPeriod_index[OF this] show ?thesis
    using period0_start period0_end by simp
qed

lemma period_of_2025_12_13:
  assumes "0 \<le> tod" "tod < msPerDay"
  shows "getPayPeriod (localMidnight 2025 12 13 + tod) =
           \<lparr>periodStart = localMidnight 2025 12 13, periodEnd = localMidnight 2025 12 26\<rparr>"
proof -
  have "(localMidnight 2025 12 13 + tod - ANCHOR_DATE) div 86400000 div 14 = 1"
    using daysDiff_within_day[OF assms, of 14] by (simp add: day_2025_12_13)
  from getPayPeriod_index[OF this] show ?thesis
    using period1_start period1_end by simp
qed

text \<open>
  C2. With the anchor 2025-11-29 and 14-day periods, any instant of 2025-12-10 (local
  midnight plus a time of day \<open>tod\<close>) lies in the period from 2025-11-29 to 2025-12-12,
  and any instant of 2025-12-13 in the period from 2025-12-13 to 2025-12-26; the bounds
  are local midnights, and \<^verbatim>\<open>formatDate\<close> prints them as these days.
\<close>

theorem pay_period_december_2025:
  assumes "0 \<le> tod" and "tod < msPerDay"
  shows "getPayPeriod (localMidnight 2025 12 10 + tod) =
           \<lparr>periodStart = localMidnight 2025 11 29, periodEnd = localMidnight 2025 12 12\<rparr>
       \<and> formatDate (periodStart (getPayPeriod (localMidnight 2025 12 10 + tod))) = ''11/29/2025''
       \<and> formatDate (periodEnd (getPayPeriod (localMidnight 2025 12 10 + tod))) = ''12/12/2025''
       \<and> getPayPeriod (localMidnight 2025 12 13 + tod) =
           \<lparr>periodStart = localMidnight 2025 12 13, periodEnd = localMidnight 2025 12 26\<rparr>
       \<and> formatDate (periodStart (getPayPeriod (localMidnight 2025 12 13 + tod))) = ''12/13/2025''
       \<and> formatDate (periodEnd (getPayPeriod (localMidnight 2025 12 13 + tod))) = ''12/26/2025''"
  using period_of_2025_12_10[OF assms] period_of_2025_12_13[OF assms]
  by (simp add: formatDate_bounds)

theorem pay_period_december_2025_witness:
  "getPayPeriod (localMidnight 2025 12 10 + 43200000) =
           \<lparr>periodStart = localMidnight 2025 11 29, periodEnd = localMidnight 2025 12 12\<rparr>
       \<and> formatDate (periodStart (getPayPeriod (localMidnight 2025 12 10 + 43200000))) = ''11/29/2025''
       \<and> formatDate (periodEnd (getPayPeriod (localMidnight 2025 12 10 + 43200000))) = ''12/12/2025''
       \<and> getPayPeriod (localMidnight 2025 12 13 + 43200000) =
           \<lparr>periodStart = localMidnight 2025 12 13, periodEnd = localMidnight 2025 12 26\<rparr>
       \<and> formatDate (periodStart (getPayPeriod (localMidnight 2025 12 13 + 43200000))) = ''12/13/2025''
       \<and> formatDate (periodEnd (getPayPeriod (localMidnight 2025 12 13 + 43200000))) = ''12/26/2025''"
proof -
  have "(0::int) \<le> 43200000" and "43200000 < msPerDay"
    by (simp_all add: msPerDay_def)
  from pay_period_december_2025[OF this] show ?thesis .
qed

section \<open>The shift aggregation\<close>

lemma processRows_append:
  "processRows ops p (xs @ ys) st = processRows ops p ys (processRows ops p xs st)"
  by (simp add: processRows_def)

lemma processRows_Cons:
  "processRows ops p (r # rs) st = processRows ops p rs (rowStep ops p st r)"
  by (simp add: processRows_def)

lemma processRows_gh_append:
  "processRows_gh ops p (xs @ ys) st = processRows_gh ops p ys (processRows_gh ops p xs st)"
  by (simp add: processRows_gh_def)

lemma processRows_gh_Cons:
  "processRows_gh ops p (r # rs) st = processRows_gh ops p rs (rowStep_gh ops p st r)"
  by (simp add: processRows_gh_def)

lemma seenShifts_rowStep: "set (seenShifts st) \<subseteq> set (seenShifts (rowStep ops p st r))"
  by (auto simp: rowStep_def addShift_def Let_def)

lemma seenShifts_processRows: "set (seenShifts st) \<subseteq> set (seenShifts (processRows ops p rs st))"
proof (induction rs arbitrary: st)
  case Nil
  then show ?case by (simp add: processRows_def)
next
  case (Cons r rs)
  have "set (seenShifts st) \<subseteq> set (seenShifts (rowStep ops p st r))"
    by (rule seenShifts_rowStep)
  also have "\<dots> \<subseteq> set (seenShifts (processRows ops p rs (rowStep ops p st r)))"
    by (rule Cons.IH)
  finally show ?case by (simp add: processRows_Cons)
qed

lemma rowStep_marks: "skipRow r \<or> shiftKey r \<in> set (seenShifts (rowStep ops p st r))"
  by (auto simp: rowStep_def addShift_def Let_def)

lemma rowStep_duplicate:
  assumes "skipRow r \<or> shiftKey r \<in> set (seenShifts st)"
  shows "rowStep ops p st r = st"
  using assms by (auto simp: rowStep_def)

lemma sameShift_key: "sameShift a b \<Longrightarrow> shiftKey a = shiftKey b"
  by (simp add: sameShift_def shiftKey_def)

lemma sameShift_skip: "sameShift a b \<Longrightarrow> skipRow a = skipRow b"
  by (simp add: sameShift_def skipRow_def)

lemma sameShift_inPeriod: "sameShift a b \<Longrightarrow> inPeriod p a = inPeriod p b"
  by (simp add: sameShift_def inPeriod_def rowDate_def)

text \<open>
  The standalone script: a row that is the same shift as an earlier row changes nothing,
  whatever its hours; the run is the run without it.
\<close>

lemma standalone_skips_duplicate:
  assumes "sameShift r1 r2"
  shows "processRows ops p (pre @ r1 # mid @ r2 # post) st
       = processRows ops p (pre @ r1 # mid @ post) st"
proof -
  define st1 where "st1 = rowStep ops p (processRows ops p pre st) r1"
  define st2 where "st2 = processRows ops p mid st1"
  have "skipRow r1 \<or> shiftKey r1 \<in> set (seenShifts st1)"
    unfolding st1_def by (rule rowStep_marks)
  moreover have "set (seenShifts st1) \<subseteq> set (seenShifts st2)"
    unfolding st2_def by (rule seenShifts_processRows)
  ultimately have "skipRow r2 \<or> shiftKey r2 \<in> set (seenShifts st2)"
    using sameShift_key[OF assms] sameShift_skip[OF assms] by auto
  then have "rowStep ops p st2 r2 = st2"
    by (rule rowStep_duplicate)
  then show ?thesis
    by (simp add: processRows_append processRows_Cons st1_def st2_def)
qed

text \<open>The first row of a shift, when its date is in the period, adds its hours and its
  line.\<close>

lemma standalone_counts_first:
  assumes "\<not> skipRow r" and "shiftKey r \<notin> set (seenShifts st)" and "inPeriod p r"
  shows "rowStep ops p st r = addShift ops r (st\<lparr>seenShifts := seenShifts st @ [shiftKey r]\<rparr>)"
  using assms by (simp add: rowStep_def)

lemma gh_counts_both:
  assumes "\<not> skipRow r1" "inPeriod p r1" "\<not> skipRow r2" "inPeriod p r2"
  shows "processRows_gh ops p (pre @ r1 # mid @ r2 # post) st =
     processRows_gh ops p post
       (addShift ops r2 (processRows_gh ops p mid (addShift ops r1 (processRows_gh ops p pre st))))"
  using assms by (simp add: processRows_gh_append processRows_gh_Cons rowStep_gh_def)

lemma in_period_2025_12_10:
  "getPayPeriod noon_2025_12_10 =
     \<lparr>periodStart = localMidnight 2025 11 29, periodEnd = localMidnight 2025 12 12\<rparr>"
proof -
  have "(0::int) \<le> 12 * 3600000" and "12 * 3600000 < msPerDay"
    by (simp_all add: msPerDay_def)
  from period_of_2025_12_10[OF this] show ?thesis
    by (simp add: noon_2025_12_10_def)
qed

lemma example_rows_in_period:
  "\<not> skipRow (shiftRow ''12/01/2025'' ''9:00'' ''12:00'' h)"
  "inPeriod \<lparr>periodStart = localMidnight 2025 11 29, periodEnd = localMidnight 2025 12 12\<rparr>
     (shiftRow ''12/01/2025'' ''9:00'' ''12:00'' h)"
  "\<not> skipRow (shiftRow ''12/05/2025'' ''14:00'' ''18:00'' h)"
  "inPeriod \<lparr>periodStart = localMidnight 2025 11 29, periodEnd = localMidnight 2025 12 12\<rparr>
     (shiftRow ''12/05/2025'' ''14:00'' ''18:00'' h)"
  by code_simp+

text \<open>
  C10. The GitHub Actions script does not deduplicate: when two rows of the input are the
  same shift (identical date, start time and end time) and the date lies in the period,
  each of the two adds its hours to the total and its line to the lines, at its place in
  the run. For an input of just these two rows the total grows by the hours of both, and
  the lines by the lines of both.
\<close>

theorem gh_counts_every_row:
  assumes "sameShift r1 r2" and "\<not> skipRow r1" and "inPeriod p r1"
  shows "processRows_gh ops p (pre @ r1 # mid @ r2 # post) st =
           processRows_gh ops p post
             (addShift ops r2 (processRows_gh ops p mid
               (addShift ops r1 (processRows_gh ops p pre st))))
       \<and> totalHours (processRows_gh ops p [r1, r2] st) =
           add ops (add ops (totalHours st) (rowHours ops r1)) (rowHours ops r2)
       \<and> shiftLines (processRows_gh ops p [r1, r2] st) =
           shiftLines st @ [shiftLine ops r1, shiftLine ops r2]"
proof -
  have r2: "\<not> skipRow r2" "inPeriod p r2"
    using assms sameShift_skip[OF assms(1)] sameShift_inPeriod[OF assms(1), of p] by simp_all
  have "processRows_gh ops p ([] @ r1 # [] @ r2 # []) st =
          processRows_gh ops p []
            (addShift ops r2 (processRows_gh ops p [] (addShift ops r1 (processRows_gh ops p [] st))))"
    by (rule gh_counts_both[OF assms(2,3) r2])
  then have two: "processRows_gh ops p [r1, r2] st = addShift ops r2 (addShift ops r1 st)"
    by (simp add: processRows_gh_def)
  show ?thesis
    using gh_counts_both[OF assms(2,3) r2, of ops pre mid post st]
    by (simp add: two addShift_def)
qed

theorem gh_counts_every_row_witness:
  "sameShift (shiftRow ''12/05/2025'' ''14:00'' ''18:00'' ''4'')
             (shiftRow ''12/05/2025'' ''14:00'' ''18:00'' ''6'')
   \<and> \<not> skipRow (shiftRow ''12/05/2025'' ''14:00'' ''18:00'' ''4'')
   \<and> inPeriod (getPayPeriod noon_2025_12_10) (shiftRow ''12/05/2025'' ''14:00'' ''18:00'' ''4'')
   \<and> totalHours (processRows_gh wholeHours (getPayPeriod noon_2025_12_10)
        [shiftRow ''12/05/2025'' ''14:00'' ''18:00'' ''4'',
         shiftRow ''12/05/2025'' ''14:00'' ''18:00'' ''6''] (initialState wholeHours)) = Some 10
   \<and> length (shiftLines (processRows_gh wholeHours (getPayPeriod noon_2025_12_10)
        [shiftRow ''12/05/2025'' ''14:00'' ''18:00'' ''4'',
         shiftRow ''12/05/2025'' ''14:00'' ''18:00'' ''6''] (initialState wholeHours))) = 2"
proof -
  let ?a = "shiftRow ''12/05/2025'' ''14:00'' ''18:00'' ''4''"
  let ?b = "shiftRow ''12/05/2025'' ''14:00'' ''18:00'' ''6''"
  let ?p = "getPayPeriod noon_2025_12_10"
  have same: "sameShift ?a ?b"
    by (simp add: sameShift_def shiftRow_def)
  have keep: "\<not> skipRow ?a"
    by (rule example_rows_in_period)
  have inside: "inPeriod ?p ?a"
    unfolding in_period_2025_12_10 by (rule example_rows_in_period)
  have sum: "add wholeHours (add wholeHours (totalHours (initialState wholeHours)) (rowHours wholeHours ?a))
               (rowHours wholeHours ?b) = Some 10"
    by code_simp
  note both = gh_counts_every_row[OF same keep inside, of wholeHours "[]" "[]" "[]" "initialState wholeHours"]
  have total: "totalHours (processRows_gh wholeHours ?p [?a, ?b] (initialState wholeHours)) = Some 10"
    using both[THEN conjunct2, THEN conjunct1] sum by simp
  have lines: "length (shiftLines (processRows_gh wholeHours ?p [?a, ?b] (initialState wholeHours))) = 2"
    using both[THEN conjunct2, THEN conjunct2] by (simp add: initialState_def)
  show ?thesis
    using same keep inside total lines by blast
qed

text \<open>
  C3, on the input of two rows for the shift of 12/01/2025 from 9:00 to 12:00, one with 3
  hours and one with 5, in the period of 2025-12-10. The standalone script counts the
  first row only: 3 hours and one line. The GitHub Actions script counts both rows: 8
  hours and two lines.
\<close>

theorem duplicate_shift_in_both_scripts:
  "main_shifts wholeHours noon_2025_12_10
     [shiftRow ''12/01/2025'' ''9:00'' ''12:00'' ''3'', shiftRow ''12/01/2025'' ''9:00'' ''12:00'' ''5'']
   = \<lparr>totalHours = Some 3,
      shiftLines = [''12/01/2025 '' @ emDash @ '' 3 hours (9:00 - 12:00)''],
      seenShifts = [''12/01/2025|9:00|12:00'']\<rparr>
   \<and> main_shifts_gh wholeHours noon_2025_12_10
     [shiftRow ''12/01/2025'' ''9:00'' ''12:00'' ''3'', shiftRow ''12/01/2025'' ''9:00'' ''12:00'' ''5'']
   = \<lparr>totalHours = Some 8,
      shiftLines = [''12/01/2025 '' @ emDash @ '' 3 hours (9:00 - 12:00)'',
                    ''12/01/2025 '' @ emDash @ '' 5 hours (9:00 - 12:00)''],
      seenShifts = []\<rparr>"
  by code_simp

section \<open>ECMAScript's JSON reads back a cache\<close>

lemma hexValue_hexDigit_all: "list_all (\<lambda>d. hexValue (hexDigit d) = Some d) [0..<16]"
  by code_simp

lemma hexValue_hexDigit: "d < 16 \<Longrightarrow> hexValue (hexDigit d) = Some d"
  using hexValue_hexDigit_all by (simp add: list_all_iff)

lemma step_escaped_control:
  assumes "(of_char c :: nat) < 32"
  shows "foldl (step nt) (Parsing (InString k acc None) stack) ([backslash, CHR ''u''] @ hex4 (of_char c))
       = Parsing (InString k (acc @ [c]) None) stack"
proof -
  define n where "n = (of_char c :: nat)"
  have n: "n < 32" using assms by (simp add: n_def)
  have digits: "hex4 n = [hexDigit 0, hexDigit 0, hexDigit (n div 16), hexDigit (n mod 16)]"
    using n by (simp add: hex4_def)
  have hi: "n div 16 < 16" and lo: "n mod 16 < 16"
    using n by simp_all
  have whole: "(n div 16) * 16 + n mod 16 = n"
    by simp
  have c: "utf8 n = [c]"
    using n by (simp add: utf8_def n_def)
  have not_bs: "backslash \<noteq> dquote" "CHR ''u'' \<noteq> dquote"
    by (simp_all add: backslash_def dquote_def)
  show ?thesis
    unfolding n_def[symmetric] digits
    using hexValue_hexDigit[of 0] hexValue_hexDigit[OF hi] hexValue_hexDigit[OF lo] n whole c
    by (simp add: step_def addCodeUnit_def backslash_def dquote_def)
qed

lemma step_escapeJSON:
  "foldl (step nt) (Parsing (InString k acc None) stack) (escapeJSON c)
   = Parsing (InString k (acc @ [c]) None) stack"
proof (cases "c = dquote \<or> c = backslash \<or> c = CHR 0x08 \<or> c = CHR 0x09 \<or> c = CHR 0x0A
              \<or> c = CHR 0x0C \<or> c = CHR 0x0D")
  case True
  then show ?thesis
    by (auto simp: escapeJSON_def step_def unescape_def flushSurrogate_def backslash_def dquote_def)
next
  case False
  show ?thesis
  proof (cases "(of_char c :: nat) < 32")
    case True
    with False step_escaped_control[OF True, of nt k acc stack] show ?thesis
      by (simp add: escapeJSON_def)
  next
    case ge: False
    with False show ?thesis
      by (simp add: escapeJSON_def step_def flushSurrogate_def)
  qed
qed

lemma step_escaped_text:
  "foldl (step nt) (Parsing (InString k acc None) stack) (concat (map escapeJSON s))
   = Parsing (InString k (acc @ s) None) stack"
  by (induction s arbitrary: acc) (simp_all add: step_escapeJSON)

lemma step_quoted_value:
  assumes "m = ExpectValue \<or> m = ExpectValueOrClose"
  shows "foldl (step nt) (Parsing m stack) (quoteJSON s) = complete (JString s) stack"
proof -
  have "step nt (Parsing m stack) dquote = Parsing (InString False [] None) stack"
    using assms by (auto simp: step_def startValue_def isJsonSpace_def dquote_def)
  then show ?thesis
    using step_escaped_text[of nt False "[]" stack s]
    by (simp add: quoteJSON_def step_def endString_def flushSurrogate_def)
qed

lemma step_quoted_key:
  "foldl (step nt) (Parsing ExpectKeyOrClose (InObject props # rest)) (quoteJSON s)
   = Parsing ExpectColon (InMember props s # rest)"
proof -
  have "step nt (Parsing ExpectKeyOrClose (InObject props # rest)) dquote
      = Parsing (InString True [] None) (InObject props # rest)"
    by (simp add: step_def isJsonSpace_def dquote_def)
  then show ?thesis
    using step_escaped_text[of nt True "[]" "InObject props # rest" s]
    by (simp add: quoteJSON_def step_def endString_def flushSurrogate_def)
qed

lemma step_spaces:
  assumes "list_all isJsonSpace ws"
    and "m = ExpectValue \<or> m = ExpectValueOrClose \<or> m = ExpectKeyOrClose \<or> m = ExpectKey
         \<or> m = ExpectColon \<or> m = AfterValue"
  shows "foldl (step nt) (Parsing m stack) ws = Parsing m stack"
  using assms by (induction ws) (auto simp: step_def stepAfter_def)

lemma spaces_indentation: "list_all isJsonSpace (lineFeed # indentation n)"
  by (simp add: indentation_def isJsonSpace_def lineFeed_def list_all_iff)

lemma step_elements:
  assumes "ids \<noteq> []" and "m = ExpectValue \<or> m = ExpectValueOrClose"
  shows "foldl (step nt) (Parsing m (InArray xs # rest))
           (joinWith ('','' @ [lineFeed] @ indentation n) (map quoteJSON ids))
       = Parsing AfterValue (InArray (xs @ map JString ids) # rest)"
  using assms
proof (induction ids arbitrary: xs m)
  case Nil
  then show ?case by simp
next
  case (Cons s ss)
  have first: "foldl (step nt) (Parsing m (InArray xs # rest)) (quoteJSON s)
             = Parsing AfterValue (InArray (xs @ [JString s]) # rest)"
    using Cons.prems by (simp add: step_quoted_value complete_def)
  show ?case
  proof (cases ss)
    case Nil
    with first show ?thesis by simp
  next
    case (Cons t ts)
    have comma: "step nt (Parsing AfterValue (InArray (xs @ [JString s]) # rest)) (CHR '','')
               = Parsing ExpectValue (InArray (xs @ [JString s]) # rest)"
      by (simp add: step_def stepAfter_def isJsonSpace_def)
    have gap: "foldl (step nt) (Parsing ExpectValue (InArray (xs @ [JString s]) # rest))
                 (lineFeed # indentation n)
             = Parsing ExpectValue (InArray (xs @ [JString s]) # rest)"
      by (rule step_spaces[OF spaces_indentation]) simp
    have "foldl (step nt) (Parsing ExpectValue (InArray (xs @ [JString s]) # rest))
            (joinWith ('','' @ [lineFeed] @ indentation n) (map quoteJSON ss))
        = Parsing AfterValue (InArray ((xs @ [JString s]) @ map JString ss) # rest)"
      by (rule Cons.IH) (simp_all add: Cons)
    with first comma gap Cons show ?thesis
      by simp
  qed
qed

lemma step_id_array:
  "foldl (step nt) (Parsing ExpectValue (InMember props k # rest))
     (stringifyAt (Suc n) (JArray (map JString ids)))
   = Parsing AfterValue (InObject (putProp k (JArray (map JString ids)) props) # rest)"
proof (cases "ids = []")
  case True
  then show ?thesis
    by (simp add: step_def startValue_def isJsonSpace_def dquote_def closeArray_def complete_def
          isDigit_def)
next
  case False
  let ?stack = "InMember props k # rest"
  have opened: "step nt (Parsing ExpectValue ?stack) (CHR ''['')
              = Parsing ExpectValueOrClose (InArray [] # ?stack)"
    by (simp add: step_def startValue_def isJsonSpace_def dquote_def)
  have gap: "foldl (step nt) (Parsing ExpectValueOrClose (InArray [] # ?stack))
               (lineFeed # indentation (Suc (Suc n)))
           = Parsing ExpectValueOrClose (InArray [] # ?stack)"
    by (rule step_spaces[OF spaces_indentation]) simp
  have elements: "foldl (step nt) (Parsing ExpectValueOrClose (InArray [] # ?stack))
               (joinWith ('','' @ [lineFeed] @ indentation (Suc (Suc n))) (map quoteJSON ids))
           = Parsing AfterValue (InArray ([] @ map JString ids) # ?stack)"
    by (rule step_elements[OF False]) simp
  have outdent: "foldl (step nt) (Parsing AfterValue (InArray (map JString ids) # ?stack))
               (lineFeed # indentation (Suc n))
           = Parsing AfterValue (InArray (map JString ids) # ?stack)"
    by (rule step_spaces[OF spaces_indentation]) simp
  have closed: "step nt (Parsing AfterValue (InArray (map JString ids) # ?stack)) (CHR '']'')
           = Parsing AfterValue (InObject (putProp k (JArray (map JString ids)) props) # rest)"
    by (simp add: step_def stepAfter_def isJsonSpace_def closeArray_def complete_def)
  have texts: "map (stringifyAt (Suc (Suc n))) (map JString ids) = map quoteJSON ids"
    by simp
  from False opened gap elements outdent closed show ?thesis
    by (simp add: texts del: map_map)
qed

lemma orderProps_seenIds: "orderProps [(''seenIds'', v)] = [(''seenIds'', v)]"
  by (simp add: orderProps_def isArrayIndex_def isDigit_def)

lemma parse_stringify_cache: "parseJSON nt (stringifyJSON (cacheOf ids)) = Some (cacheOf ids)"
proof -
  let ?array = "JArray (map JString ids)"
  have opened: "step nt (Parsing ExpectValue []) (CHR ''{'')
              = Parsing ExpectKeyOrClose [InObject []]"
    by (simp add: step_def startValue_def isJsonSpace_def dquote_def)
  have gap: "foldl (step nt) (Parsing ExpectKeyOrClose [InObject []]) (lineFeed # indentation (Suc 0))
           = Parsing ExpectKeyOrClose [InObject []]"
    by (rule step_spaces[OF spaces_indentation]) simp
  have key: "foldl (step nt) (Parsing ExpectKeyOrClose [InObject []]) (quoteJSON ''seenIds'')
           = Parsing ExpectColon [InMember [] ''seenIds'']"
    by (rule step_quoted_key)
  have colon: "foldl (step nt) (Parsing ExpectColon [InMember [] ''seenIds'']) '': ''
           = Parsing ExpectValue [InMember [] ''seenIds'']"
    by (simp add: step_def isJsonSpace_def)
  have array: "foldl (step nt) (Parsing ExpectValue [InMember [] ''seenIds''])
                 (stringifyAt (Suc 0) ?array)
           = Parsing AfterValue [InObject [(''seenIds'', ?array)]]"
    using step_id_array[of nt "[]" "''seenIds''" "[]" 0 ids] by (simp add: putProp_def)
  have outdent: "foldl (step nt) (Parsing AfterValue [InObject [(''seenIds'', ?array)]])
                (lineFeed # indentation 0)
           = Parsing AfterValue [InObject [(''seenIds'', ?array)]]"
    by (rule step_spaces[OF spaces_indentation]) simp
  have closed: "step nt (Parsing AfterValue [InObject [(''seenIds'', ?array)]]) (CHR ''}'')
           = Done (JObject [(''seenIds'', ?array)])"
    by (simp add: step_def stepAfter_def isJsonSpace_def closeObject_def complete_def
          orderProps_seenIds)
  have "foldl (step nt) (Parsing ExpectValue []) (stringifyAt 0 (cacheOf ids))
      = Done (cacheOf ids)"
    unfolding cacheOf_def
    using opened gap key colon array outdent closed
    by (simp del: stringifyAt.simps(5) add: indentation_def)
  then show ?thesis
    by (simp add: parseJSON_def stringifyJSON_def finish_def)
qed

section \<open>The seen-set\<close>

lemma set_Set_add: "set (Set_add s x) = insert x (set s)"
  by (auto simp: Set_add_def Set_has_def)

lemma set_foldl_Set_add: "set (foldl Set_add acc xs) = set acc \<union> set xs"
  by (induction xs arbitrary: acc) (auto simp: set_Set_add)

lemma set_markSeen: "set (markSeen seen new) = set seen \<union> (\<lambda>e. JString (event_id e)) ` set new"
  unfolding markSeen_def by (induction new arbitrary: seen) (auto simp: set_Set_add)

lemma ids_markSeen:
  "{i. JString i \<in> set (markSeen seen new)} = {i. JString i \<in> set seen} \<union> event_id ` set new"
  by (auto simp: set_markSeen)

lemma map_of_putProp: "map_of (putProp k v props) k = Some v"
proof (cases "k \<in> fst ` set props")
  case True
  then show ?thesis
    by (induction props) (auto simp: putProp_def)
next
  case False
  then have "map_of props k = None"
    by (simp add: map_of_eq_None_iff)
  with False show ?thesis
    by (simp add: putProp_def map_add_def)
qed

lemma set_storedIds:
  "map_of props ''seenIds'' = Some (JArray xs) \<Longrightarrow>
     set (storedIds (JObject props)) = {i. JString i \<in> set xs}"
  by (auto simp: storedIds_def split: jsvalue.splits)




section \<open>The run\<close>

lemma sendEmails_all: "snd (sendEmails rt k es) \<Longrightarrow> fst (sendEmails rt k es) = es"
  by (induction es arbitrary: k) (auto simp: case_prod_beta split: if_splits)

lemma fetchEvents_None: "fetchEvents rt = None \<longleftrightarrow> fetchText rt = None"
  by (simp add: fetchEvents_def split: option.splits)

text \<open>The loaded cache when the \<^verbatim>\<open>Set\<close> is made without an exception.\<close>

lemma loadedSeen_Some:
  assumes "loadedSeen js file = Some seen"
  shows "\<exists>ids. readSeenIds (loadCache js file) = Inr ids \<and> new_Set ids = Inr seen"
  using assms by (auto simp: loadedSeen_def split: sum.splits)

text \<open>A run that does not exit with code 0 leaves the state file as it was.\<close>

lemma main_aborted:
  assumes "exitCode (main js rt file) \<noteq> 0"
  shows "exitCode (main js rt file) = 1 \<and> cacheFile (main js rt file) = file"
  using assms
  by (auto simp: main_def Let_def case_prod_beta split: option.splits sum.splits if_splits)

text \<open>A run that exits with code 0 made the \<^verbatim>\<open>Set\<close>, sent every mail of the first 10 new
  events, set the property and wrote the cache.\<close>

lemma main_completed:
  assumes "exitCode (main js rt file) = 0"
  shows "\<exists>seen. loadedSeen js file = Some seen
           \<and> writeSeenIds (loadCache js file) (markSeen seen (newEventsOfRun js rt file))
               = Inr (cacheToSave js rt file)
           \<and> \<not> runFails js rt file
           \<and> delivered (main js rt file) = take 10 (newEventsOfRun js rt file)
           \<and> cacheFile (main js rt file) = saveCache js (cacheToSave js rt file)"
proof -
  from assms obtain events where fetched: "fetchEvents rt = Some events"
    by (cases "fetchEvents rt") (auto simp: main_def)
  then have online: "fetchText rt \<noteq> None"
    using fetchEvents_None[of rt] by auto
  from assms fetched obtain ids where ids: "readSeenIds (loadCache js file) = Inr ids"
    by (cases "readSeenIds (loadCache js file)") (auto simp: main_def Let_def)
  from assms fetched ids obtain seen where seen: "new_Set ids = Inr seen"
    by (cases "new_Set ids") (auto simp: main_def Let_def)
  have loaded: "loadedSeen js file = Some seen"
    by (simp add: loadedSeen_def ids seen)
  have new: "newEventsOfRun js rt file = newEvents seen events"
    by (simp add: newEventsOfRun_def fetched loaded)
  from assms fetched ids seen
  have ok: "snd (sendEmails rt 0 (take 10 (newEvents seen events)))"
    by (auto simp: main_def Let_def case_prod_beta split: if_splits)
  from assms fetched ids seen ok obtain c
    where c: "writeSeenIds (loadCache js file) (markSeen seen (newEvents seen events)) = Inr c"
    by (cases "writeSeenIds (loadCache js file) (markSeen seen (newEvents seen events))")
       (auto simp: main_def Let_def case_prod_beta)
  have toSave: "cacheToSave js rt file = c"
    by (simp add: cacheToSave_def loaded new c)
  have run: "main js rt file =
      \<lparr>exitCode = 0, delivered = take 10 (newEvents seen events), cacheFile = saveCache js c\<rparr>"
    using sendEmails_all[OF ok] ok
    by (simp add: main_def Let_def case_prod_beta fetched ids seen c)
  have "\<not> runFails js rt file"
    using online ok by (simp add: runFails_def new)
  with loaded c toSave run new show ?thesis
    by simp
qed

text \<open>A run that fails exits with code 1 and leaves the state file as it was.\<close>

lemma main_failed:
  assumes "runFails js rt file"
  shows "exitCode (main js rt file) = 1 \<and> cacheFile (main js rt file) = file"
proof (rule main_aborted)
  show "exitCode (main js rt file) \<noteq> 0"
  proof
    assume "exitCode (main js rt file) = 0"
    from main_completed[OF this] assms show False
      by auto
  qed
qed

text \<open>The cache that a completed run writes when the loaded cache is an object.\<close>

lemma completed_object:
  assumes "exitCode (main js rt file) = 0" and "loadCache js file = JObject props"
  shows "\<exists>seen. loadedSeen js file = Some seen
           \<and> cacheToSave js rt file
               = JObject (putProp ''seenIds'' (JArray (markSeen seen (newEventsOfRun js rt file))) props)"
  using main_completed[OF assms(1)] assms(2) by (auto simp: writeSeenIds_def)

lemma completed_not_array:
  assumes "exitCode (main js rt file) = 0" and "\<not> isArray (loadCache js file)"
  shows "\<exists>props. loadCache js file = JObject props"
proof -
  from main_completed[OF assms(1)] obtain seen c
    where "writeSeenIds (loadCache js file) seen = Inr c"
    by auto
  with assms(2) show ?thesis
    by (cases "loadCache js file") (simp_all add: writeSeenIds_def isArray_def)
qed

lemma seenSet_loaded: "loadedSeen js file = Some seen \<Longrightarrow> seenSet js file = {i. JString i \<in> set seen}"
  by (simp add: seenSet_def)

text \<open>The ids that a completed run stores, when the loaded cache is an object: the ids of
  the loaded seen-set and those of the new events.\<close>

lemma stored_after_run:
  assumes "exitCode (main js rt file) = 0" and "loadCache js file = JObject props"
  shows "set (storedIds (cacheToSave js rt file))
           = seenSet js file \<union> event_id ` set (newEventsOfRun js rt file)"
proof -
  from completed_object[OF assms] obtain seen where loaded: "loadedSeen js file = Some seen"
    and saved: "cacheToSave js rt file
               = JObject (putProp ''seenIds'' (JArray (markSeen seen (newEventsOfRun js rt file))) props)"
    by auto
  show ?thesis
    unfolding saved seenSet_loaded[OF loaded]
    by (simp add: set_storedIds[OF map_of_putProp] ids_markSeen)
qed


section \<open>Runs one after the other\<close>

lemma loadCache_saveCache: "readsBack js c \<Longrightarrow> loadCache js (saveCache js c) = c"
  by (simp add: readsBack_def loadCache_def saveCache_def)

lemma seenSet_object:
  assumes "loadCache js f = JObject props" and "map_of props ''seenIds'' = Some (JArray xs)"
  shows "seenSet js f = {i. JString i \<in> set xs}"
  using assms by (simp add: seenSet_def loadedSeen_def readSeenIds_def new_Set_def set_foldl_Set_add)







section \<open>The caches that the script writes\<close>




lemma readsBack_cacheOf: "readsBack (ecmaJson nt) (cacheOf ids)"
  by (simp add: readsBack_def ecmaJson_def parse_stringify_cache)




section \<open>The runs of the examples\<close>

lemma fetch_eleven:
  "fetchEvents (runAtNoon (Some feedOfEleven) mailer) = Some (map undatedEvent elevenIds)"
  by code_simp

lemma parse_not_json: "JSON_parse exampleJson ''not json'' = None"
  by code_simp

lemma parse_empty_array: "JSON_parse exampleJson ''[]'' = Some (JArray [])"
  by code_simp

lemma loadedSeen_first: "loadedSeen js None = Some []"
  by (simp add: loadedSeen_def loadCache_def cacheOf_def readSeenIds_def new_Set_def)

lemma loadedSeen_not_json: "loadedSeen exampleJson (Some ''not json'') = Some []"
  by (simp add: loadedSeen_def loadCache_def parse_not_json cacheOf_def readSeenIds_def new_Set_def)

lemma loadedSeen_empty_array: "loadedSeen exampleJson (Some ''[]'') = Some []"
  by (simp add: loadedSeen_def loadCache_def parse_empty_array readSeenIds_def new_Set_def)

lemma newEvents_first: "newEvents [] events = events"
  by (simp add: newEvents_def Set_has_def)

lemma new_eleven:
  "newEventsOfRun js (runAtNoon (Some feedOfEleven) mailer) None = map undatedEvent elevenIds"
  by (simp add: newEventsOfRun_def fetch_eleven loadedSeen_first newEvents_first)

lemma new_eleven_not_json:
  "newEventsOfRun exampleJson (runAtNoon (Some feedOfEleven) mailer) (Some ''not json'')
     = map undatedEvent elevenIds"
  by (simp add: newEventsOfRun_def fetch_eleven loadedSeen_not_json newEvents_first)

lemma new_eleven_empty_array:
  "newEventsOfRun exampleJson (runAtNoon (Some feedOfEleven) mailer) (Some ''[]'')
     = map undatedEvent elevenIds"
  by (simp add: newEventsOfRun_def fetch_eleven loadedSeen_empty_array newEvents_first)

lemma send_all_ten:
  "sendEmails (runAtNoon feed everyMailArrives) 0 (take 10 (map undatedEvent elevenIds))
     = (map undatedEvent (take 10 elevenIds), True)"
  by (simp add: elevenIds_def runAtNoon_def everyMailArrives_def)

lemma send_second_fails:
  "sendEmails (runAtNoon feed secondMailFails) 0 (take 10 (map undatedEvent elevenIds))
     = ([undatedEvent ''a''], False)"
  by (simp add: elevenIds_def runAtNoon_def secondMailFails_def)

lemma first_run_of_eleven:
  "exitCode (main js (runAtNoon (Some feedOfEleven) everyMailArrives) None) = 0"
  by (simp add: main_def fetch_eleven loadCache_def cacheOf_def readSeenIds_def new_Set_def
        newEvents_first send_all_ten writeSeenIds_def)

lemma run_on_empty_array:
  "main exampleJson (runAtNoon (Some feedOfEleven) everyMailArrives) (Some ''[]'')
     = \<lparr>exitCode = 0, delivered = map undatedEvent (take 10 elevenIds), cacheFile = Some ''[]''\<rparr>"
proof -
  have "JSON_stringify exampleJson (JArray []) = ''[]''"
    by code_simp
  then show ?thesis
    by (simp add: main_def fetch_eleven loadCache_def parse_empty_array readSeenIds_def new_Set_def
        newEvents_first send_all_ten writeSeenIds_def saveCache_def)
qed

lemma run_second_mail_fails:
  "main js (runAtNoon (Some feedOfEleven) secondMailFails) None
     = \<lparr>exitCode = 1, delivered = [undatedEvent ''a''], cacheFile = None\<rparr>"
  by (simp add: main_def fetch_eleven loadCache_def cacheOf_def readSeenIds_def new_Set_def
        newEvents_first send_second_fails)

text \<open>A state file that holds \<^verbatim>\<open>null\<close>: reading \<^verbatim>\<open>cache.seenIds\<close> throws before any mail is
  sent. A state file that holds a number: the mails are sent, then setting the property
  throws. Both runs exit with code 1 and leave the file as it was.\<close>

lemma run_on_null:
  "main exampleJson (runAtNoon (Some feedOfEleven) everyMailArrives) (Some ''null'')
     = \<lparr>exitCode = 1, delivered = [], cacheFile = Some ''null''\<rparr>"
proof -
  have "JSON_parse exampleJson ''null'' = Some JNull"
    by code_simp
  then show ?thesis
    by (simp add: main_def fetch_eleven loadCache_def readSeenIds_def)
qed

lemma run_on_number:
  "main exampleJson (runAtNoon (Some feedOfEleven) everyMailArrives) (Some ''5'')
     = \<lparr>exitCode = 1, delivered = map undatedEvent (take 10 elevenIds), cacheFile = Some ''5''\<rparr>"
proof -
  have "JSON_parse exampleJson ''5'' = Some (JNumber ''5'')"
    by code_simp
  then show ?thesis
    by (simp add: main_def fetch_eleven loadCache_def readSeenIds_def new_Set_def
        newEvents_first send_all_ten writeSeenIds_def)
qed

section \<open>The properties of the event script\<close>

text \<open>
  C1 does not hold of every run. A run with 11 new events whose second call of
  \<^verbatim>\<open>sendMail\<close> rejects delivers one mail, exits with code 1 and writes no state. A run
  with 11 new events whose state file holds the JSON array \<^verbatim>\<open>[]\<close> completes and delivers
  the first 10, but writes \<^verbatim>\<open>[]\<close> again, without any of the 11 ids: \<^verbatim>\<open>seenIds\<close> is set as
  a property of the array, which \<^verbatim>\<open>JSON.stringify\<close> does not write.
\<close>

theorem notification_cap_not_for_every_run:
  "length (newEventsOfRun exampleJson (runAtNoon (Some feedOfEleven) secondMailFails) None) = 11
   \<and> main exampleJson (runAtNoon (Some feedOfEleven) secondMailFails) None
       = \<lparr>exitCode = 1, delivered = [undatedEvent ''a''], cacheFile = None\<rparr>
   \<and> length (newEventsOfRun exampleJson (runAtNoon (Some feedOfEleven) everyMailArrives) (Some ''[]'')) = 11
   \<and> main exampleJson (runAtNoon (Some feedOfEleven) everyMailArrives) (Some ''[]'')
       = \<lparr>exitCode = 0, delivered = map undatedEvent (take 10 elevenIds), cacheFile = Some ''[]''\<rparr>"
  by (simp add: new_eleven new_eleven_empty_array run_second_mail_fails run_on_empty_array)
     (simp add: elevenIds_def)

text \<open>
  C1, for a run that completes (exit code 0) on a state that holds no JSON array: if more
  than 10 events are new, the mailer delivers exactly the first 10 of the new events, in
  feed order, and the cache that the run writes to the state file holds the id of every
  new event, the undelivered ones included.
\<close>

theorem notification_cap:
  assumes "exitCode (main js rt file) = 0"
    and "\<not> isArray (loadCache js file)"
    and "10 < length (newEventsOfRun js rt file)"
  shows "delivered (main js rt file) = take 10 (newEventsOfRun js rt file)
       \<and> length (delivered (main js rt file)) = 10
       \<and> cacheFile (main js rt file) = Some (JSON_stringify js (cacheToSave js rt file))
       \<and> event_id ` set (newEventsOfRun js rt file) \<subseteq> set (storedIds (cacheToSave js rt file))"
proof -
  from completed_not_array[OF assms(1,2)] obtain props where "loadCache js file = JObject props"
    by auto
  from stored_after_run[OF assms(1) this] main_completed[OF assms(1)] assms(3) show ?thesis
    by (auto simp: saveCache_def)
qed

theorem notification_cap_witness:
  "exitCode (main exampleJson (runAtNoon (Some feedOfEleven) everyMailArrives) None) = 0
   \<and> loadCache exampleJson None = JObject [(''seenIds'', JArray [])]
   \<and> length (newEventsOfRun exampleJson (runAtNoon (Some feedOfEleven) everyMailArrives) None) = 11
   \<and> map event_id (delivered (main exampleJson (runAtNoon (Some feedOfEleven) everyMailArrives) None))
       = [''a'', ''b'', ''c'', ''d'', ''e'', ''f'', ''g'', ''h'', ''i'', ''j'']
   \<and> ''k'' \<in> set (storedIds (cacheToSave exampleJson (runAtNoon (Some feedOfEleven) everyMailArrives) None))"
proof -
  let ?rt = "runAtNoon (Some feedOfEleven) everyMailArrives"
  have finished: "exitCode (main exampleJson ?rt None) = 0"
    by (rule first_run_of_eleven)
  have state: "loadCache exampleJson None = JObject [(''seenIds'', JArray [])]"
    by (simp add: loadCache_def cacheOf_def)
  then have object: "\<not> isArray (loadCache exampleJson None)"
    by (simp add: isArray_def)
  have many: "10 < length (newEventsOfRun exampleJson ?rt None)"
    by (simp add: new_eleven elevenIds_def)
  note cap = notification_cap[OF finished object many]
  have sent: "map event_id (delivered (main exampleJson ?rt None))
       = [''a'', ''b'', ''c'', ''d'', ''e'', ''f'', ''g'', ''h'', ''i'', ''j'']"
    using cap[THEN conjunct1] by (simp add: new_eleven elevenIds_def undatedEvent_def)
  have "event_id (undatedEvent ''k'') \<in> event_id ` set (newEventsOfRun exampleJson ?rt None)"
    by (simp add: new_eleven elevenIds_def)
  with cap[THEN conjunct2, THEN conjunct2, THEN conjunct2]
  have seen: "''k'' \<in> set (storedIds (cacheToSave exampleJson ?rt None))"
    by (auto simp: undatedEvent_def)
  have eleven: "length (newEventsOfRun exampleJson ?rt None) = 11"
    by (simp add: new_eleven elevenIds_def)
  show ?thesis
    by (rule conjI[OF finished conjI[OF state conjI[OF eleven conjI[OF sent seen]]]])
qed




text \<open>
  C7. When the fetch throws or a call of \<^verbatim>\<open>sendMail\<close> rejects, the run exits with code 1
  and the state file is what it was before the run. (A record that does not parse is
  dropped inside \<^verbatim>\<open>fetchEvents\<close> and fails nothing.)
\<close>

theorem failed_run_keeps_state:
  assumes "runFails js rt file"
  shows "exitCode (main js rt file) = 1 \<and> cacheFile (main js rt file) = file"
  using assms by (rule main_failed)

theorem failed_run_keeps_state_witness:
  "runFails exampleJson (runAtNoon (Some feedOfEleven) secondMailFails) (Some ''not json'')
   \<and> runFails exampleJson (runAtNoon None everyMailArrives) (Some ''not json'')
   \<and> exitCode (main exampleJson (runAtNoon (Some feedOfEleven) secondMailFails) (Some ''not json'')) = 1
   \<and> cacheFile (main exampleJson (runAtNoon (Some feedOfEleven) secondMailFails) (Some ''not json''))
       = Some ''not json''
   \<and> exitCode (main exampleJson (runAtNoon None everyMailArrives) (Some ''not json'')) = 1
   \<and> cacheFile (main exampleJson (runAtNoon None everyMailArrives) (Some ''not json'')) = Some ''not json''"
proof -
  let ?rt = "runAtNoon (Some feedOfEleven) secondMailFails"
  have fails: "runFails exampleJson ?rt (Some ''not json'')"
    by (simp add: runFails_def new_eleven_not_json send_second_fails)
  have offline: "runFails exampleJson (runAtNoon None everyMailArrives) (Some ''not json'')"
    by (simp add: runFails_def runAtNoon_def)
  show ?thesis
    using fails offline failed_run_keeps_state[OF fails] failed_run_keeps_state[OF offline]
    by blast
qed

text \<open>
  C8. When the state file is missing, or its text does not parse, \<^verbatim>\<open>loadCache\<close> returns
  the empty cache \<^verbatim>\<open>{ seenIds: [] }\<close> and throws nothing: the seen-set is empty and the
  run treats the events of the feed as a first run does.
\<close>

theorem loadCache_recovers:
  assumes "file = None \<or> (\<exists>text. file = Some text \<and> JSON_parse js text = None)"
  shows "loadCache js file = cacheOf []
       \<and> seenSet js file = {}
       \<and> newEventsOfRun js rt file = newEventsOfRun js rt None
       \<and> delivered (main js rt file) = delivered (main js rt None)
       \<and> exitCode (main js rt file) = exitCode (main js rt None)"
proof -
  from assms have empty: "loadCache js file = cacheOf []"
    by (auto simp: loadCache_def)
  have first: "loadCache js None = cacheOf []"
    by (simp add: loadCache_def)
  have loaded: "loadedSeen js file = Some []"
    by (simp add: loadedSeen_def empty cacheOf_def readSeenIds_def new_Set_def)
  have new: "newEventsOfRun js rt file = newEventsOfRun js rt None"
    by (simp add: newEventsOfRun_def loaded loadedSeen_first split: option.splits)
  have run: "delivered (main js rt file) = delivered (main js rt None)
       \<and> exitCode (main js rt file) = exitCode (main js rt None)"
    by (simp add: main_def Let_def case_prod_beta empty first
          split: option.splits sum.splits)
  show ?thesis
    using empty loaded new run by (simp add: seenSet_def)
qed

theorem loadCache_recovers_witness:
  "JSON_parse exampleJson ''not json'' = None
   \<and> loadCache exampleJson (Some ''not json'') = JObject [(''seenIds'', JArray [])]
   \<and> loadCache exampleJson None = JObject [(''seenIds'', JArray [])]
   \<and> seenSet exampleJson (Some ''not json'') = {}"
proof -
  have a: "Some ''not json'' = None \<or> (\<exists>text. Some ''not json'' = Some text \<and> JSON_parse exampleJson text = None)"
    using parse_not_json by simp
  have b: "(None :: string option) = None \<or> (\<exists>text. None = Some text \<and> JSON_parse exampleJson text = None)"
    by simp
  show ?thesis
    using loadCache_recovers[OF a] loadCache_recovers[OF b] parse_not_json
    by (simp add: cacheOf_def)
qed

text \<open>
  C9, with the JSON of ECMAScript: \<^verbatim>\<open>saveCache\<close> writes the cache of a list of ids as
  indented text, and \<^verbatim>\<open>loadCache\<close> reads that text back to the same cache, so the seen-set
  that a run loads from it is the set of the ids, whatever the ids and their order.
\<close>

theorem cache_round_trip:
  "loadCache (ecmaJson nt) (saveCache (ecmaJson nt) (cacheOf ids)) = cacheOf ids
   \<and> seenSet (ecmaJson nt) (saveCache (ecmaJson nt) (cacheOf ids)) = set ids"
proof -
  have loaded: "loadCache (ecmaJson nt) (saveCache (ecmaJson nt) (cacheOf ids)) = cacheOf ids"
    by (rule loadCache_saveCache[OF readsBack_cacheOf])
  have "map_of [(''seenIds'', JArray (map JString ids))] ''seenIds'' = Some (JArray (map JString ids))"
    by simp
  from seenSet_object[OF loaded[unfolded cacheOf_def] this]
  have "seenSet (ecmaJson nt) (saveCache (ecmaJson nt) (cacheOf ids)) = set ids"
    by (auto simp: cacheOf_def)
  with loaded show ?thesis
    by simp
qed

theorem cache_round_trip_witness:
  "saveCache exampleJson (cacheOf [''b'', ''a'', ''b''])
     = Some (''{'' @ [lineFeed] @ ''  '' @ [dquote] @ ''seenIds'' @ [dquote] @ '': ['' @ [lineFeed]
         @ ''    '' @ [dquote] @ ''b'' @ [dquote] @ '','' @ [lineFeed]
         @ ''    '' @ [dquote] @ ''a'' @ [dquote] @ '','' @ [lineFeed]
         @ ''    '' @ [dquote] @ ''b'' @ [dquote] @ [lineFeed]
         @ ''  ]'' @ [lineFeed] @ ''}'')
   \<and> loadCache exampleJson (saveCache exampleJson (cacheOf [''b'', ''a'', ''b'']))
       = cacheOf [''b'', ''a'', ''b'']
   \<and> seenSet exampleJson (saveCache exampleJson (cacheOf [''b'', ''a'', ''b''])) = {''a'', ''b''}"
proof -
  have written: "saveCache exampleJson (cacheOf [''b'', ''a'', ''b''])
     = Some (''{'' @ [lineFeed] @ ''  '' @ [dquote] @ ''seenIds'' @ [dquote] @ '': ['' @ [lineFeed]
         @ ''    '' @ [dquote] @ ''b'' @ [dquote] @ '','' @ [lineFeed]
         @ ''    '' @ [dquote] @ ''a'' @ [dquote] @ '','' @ [lineFeed]
         @ ''    '' @ [dquote] @ ''b'' @ [dquote] @ [lineFeed]
         @ ''  ]'' @ [lineFeed] @ ''}'')"
    by code_simp
  from cache_round_trip[of "\<lambda>literal. literal" "[''b'', ''a'', ''b'']", folded exampleJson_def] written
  show ?thesis
    by auto
qed

section \<open>The parser of the feed\<close>

lemma parseBlock_past:
  assumes "startsBeforeToday rt block"
  shows "parseBlock rt block = None"
proof -
  from assms obtain t where "blockStart block = Some (Date t)" and "t < today rt"
    by (auto simp: startsBeforeToday_def split: option.splits jsdate.splits)
  then show ?thesis
    by (simp add: parseBlock_def Let_def date_lt_def)
qed

lemma map_filter_drop:
  assumes "\<And>x. P x \<Longrightarrow> f x = None"
  shows "List.map_filter f (filter (\<lambda>x. \<not> P x) xs) = List.map_filter f xs"
  using assms by (induction xs) (auto split: option.splits)

text \<open>
  C4. A block of the feed whose start parses to an instant before local midnight of
  today gives no event. The events that \<^verbatim>\<open>fetchEvents\<close> returns are those of the other
  blocks, in feed order; \<^verbatim>\<open>fetchEvents\<close> does not read the state file, so the new events
  of the run are drawn from the other blocks alone, whatever the state file holds (a run
  that throws when it makes the \<^verbatim>\<open>Set\<close> of the seen ids has no new events).
\<close>

theorem past_events_excluded:
  assumes "fetchText rt = Some icalText"
  shows "fetchEvents rt =
           Some (List.map_filter (parseBlock rt)
                  (filter (\<lambda>b. \<not> startsBeforeToday rt b) (eventBlocks icalText)))
       \<and> List.map_filter (parseBlock rt) (filter (startsBeforeToday rt) (eventBlocks icalText)) = []
       \<and> newEventsOfRun js rt file =
           (case loadedSeen js file of
              None \<Rightarrow> []
            | Some seen \<Rightarrow>
                newEvents seen
                  (List.map_filter (parseBlock rt)
                    (filter (\<lambda>b. \<not> startsBeforeToday rt b) (eventBlocks icalText))))"
proof -
  have kept: "List.map_filter (parseBlock rt) (filter (\<lambda>b. \<not> startsBeforeToday rt b) bs)
            = List.map_filter (parseBlock rt) bs" for bs
    by (rule map_filter_drop) (rule parseBlock_past)
  have dropped: "List.map_filter (parseBlock rt) (filter (startsBeforeToday rt) bs) = []" for bs
    by (induction bs) (simp_all add: parseBlock_past)
  from assms kept dropped show ?thesis
    by (simp add: fetchEvents_def newEventsOfRun_def split: option.splits)
qed

lemma blocks_old_and_new:
  "map (startsBeforeToday (runAtNoon (Some feedOldAndNew) mailer)) (eventBlocks feedOldAndNew)
     = [True, False]"
  by code_simp

lemma fetch_old_and_new:
  "map_option (map event_id) (fetchEvents (runAtNoon (Some feedOldAndNew) mailer)) = Some [''new'']"
  by code_simp

theorem past_events_excluded_witness:
  "fetchText (runAtNoon (Some feedOldAndNew) everyMailArrives) = Some feedOldAndNew
   \<and> map (startsBeforeToday (runAtNoon (Some feedOldAndNew) everyMailArrives)) (eventBlocks feedOldAndNew)
       = [True, False]
   \<and> map_option (map event_id) (fetchEvents (runAtNoon (Some feedOldAndNew) everyMailArrives))
       = Some [''new'']
   \<and> fetchEvents (runAtNoon (Some feedOldAndNew) everyMailArrives) =
        Some (List.map_filter (parseBlock (runAtNoon (Some feedOldAndNew) everyMailArrives))
               (filter (\<lambda>b. \<not> startsBeforeToday (runAtNoon (Some feedOldAndNew) everyMailArrives) b)
                 (eventBlocks feedOldAndNew)))"
proof -
  have fetched: "fetchText (runAtNoon (Some feedOldAndNew) everyMailArrives) = Some feedOldAndNew"
    by (simp add: runAtNoon_def)
  show ?thesis
    by (rule conjI[OF fetched conjI[OF blocks_old_and_new conjI[OF fetch_old_and_new
          past_events_excluded[OF fetched, THEN conjunct1]]]])
qed

text \<open>
  C5, on a feed of one record with identifier, title and the start \<^verbatim>\<open>DTSTART:TBA\<close>, which
  is no date. The record is kept and passes the filter of past events, but its date and
  its time are the text \<^verbatim>\<open>Invalid Date\<close>, not \<^verbatim>\<open>TBD\<close>: \<^verbatim>\<open>parseICalDate\<close> returns an
  invalid \<^verbatim>\<open>Date\<close> object, which is truthy, where \<^verbatim>\<open>fetchEvents\<close> tests for \<^verbatim>\<open>null\<close>.
\<close>

theorem unparsable_start_is_not_TBD:
  "parseICalDate (Some ''TBA'') = Some InvalidDate
   \<and> fetchEvents (runAtNoon (Some feedWithoutDate) mailer) =
       Some [\<lparr>event_id = ''evt-1'', title = ''Open House'', date = ''Invalid Date'',
              time = ''Invalid Date'', location = ''TBD'',
              url = ''https://yeshiva.campusgroups.com/events''\<rparr>]"
  by code_simp

text \<open>The same for every record: with identifier and title present and a start text that
  is no date, the event is kept and both texts are \<^verbatim>\<open>Invalid Date\<close>; only a record with
  no start at all gets \<^verbatim>\<open>TBD\<close>.\<close>

lemma invalid_start_kept:
  assumes "parseBlock rt block = Some e" and "blockStart block = Some InvalidDate"
  shows "date e = ''Invalid Date'' \<and> time e = ''Invalid Date''"
  using assms
  by (auto simp: parseBlock_def Let_def formatEventDate_def formatEventTime_def split: if_splits)

lemma matchHere_nonempty: "matchHere key params s = Some v \<Longrightarrow> v \<noteq> []"
  by (auto simp: matchHere_def Let_def split: if_splits list.splits)

lemma matchField_nonempty: "matchField key params s = Some v \<Longrightarrow> v \<noteq> []"
  by (induction s) (auto split: option.splits dest: matchHere_nonempty)

lemma invalid_start_not_dropped:
  assumes "matchField ''UID'' False block = Some u" and "matchField ''SUMMARY'' True block = Some s"
    and "blockStart block = Some InvalidDate"
  shows "parseBlock rt block \<noteq> None"
proof -
  have "u \<noteq> []" "s \<noteq> []"
    using assms(1,2) by (auto dest: matchField_nonempty)
  with assms show ?thesis
    by (simp add: parseBlock_def Let_def date_lt_def)
qed

lemma missing_start_is_TBD:
  assumes "parseBlock rt block = Some e" and "blockStart block = None"
  shows "date e = ''TBD'' \<and> time e = ''TBD''"
  using assms
  by (auto simp: parseBlock_def Let_def formatEventDate_def formatEventTime_def split: if_splits)

end
